theory Spec2Isabelle
  imports Complex_Main "HOL-Library.Log_Nat"
begin

section \<open>Shared interfaces (src/types.ts)\<close>

text \<open>
  The TypeScript interfaces become records, the string-literal unions become datatypes.
  An absent optional field (\<open>fixCommand?\<close>), a \<open>null\<close> (\<open>installed: string | null\<close>) and the
  \<open>false\<close> of \<open>deprecated: string | false\<close> are \<open>None\<close>. Several interfaces share field names
  (\<open>name\<close>, \<open>score\<close>, \<open>packageName\<close>); the selectors are written qualified where needed.
\<close>

datatype PeerStatus = COMPATIBLE | INCOMPATIBLE | MISSING | OPTIONAL_MISSING

record PeerCheck =
  name :: string
  required :: string
  installed :: "string option"
  status :: PeerStatus
  fixCommand :: "string option"

record CompatibilityReport =
  packageName :: string
  checks :: "PeerCheck list"
  compatible :: bool

record PackageInfo =
  name :: string
  version :: string
  description :: string
  deprecated :: "string option"
  lastPublish :: string
  weeklyDownloads :: int
  maintainerCount :: int
  license :: string
  peerDependencies :: "(string \<times> string) list"
  peerDependenciesMeta :: "(string \<times> bool option) list"
  homepage :: string
  repository :: string

datatype Severity = LOW | MODERATE | HIGH | CRITICAL

record SecurityVulnerability =
  vulnId :: string
  summary :: string
  severity :: Severity
  affectedVersions :: string
  url :: string

record SecurityReport =
  packageName :: string
  vulnerabilities :: "SecurityVulnerability list"
  hasCritical :: bool

datatype RiskAction = ALLOW | WARN | BLOCK

record RiskFactor =
  name :: string
  score :: int
  maxScore :: int
  reason :: string

record RiskScore =
  score :: int
  action :: RiskAction
  factors :: "RiskFactor list"

section \<open>JavaScript primitives used by the checkers\<close>

text \<open>
  A JavaScript number is an IEEE 754 binary64 value. The finite ones are rationals, and an
  arithmetic operation returns its exact result rounded to the nearest binary64 value, ties
  to the even significand: \<open>binary64\<close> below. For \<open>x > 0\<close>, \<open>exponent x\<close> is the \<open>e\<close> with
  \<open>2^e \<le> x < 2^(e+1)\<close>, and the binary64 values between these two powers are the multiples of
  \<open>2^(e-52)\<close>. Overflow and subnormal numbers are left out: the numbers of the scoring
  engine are quotients of array lengths, weights and millisecond counts, far inside the
  normal range. Integers below \<open>2^53\<close> are binary64 values, and their sums, differences and
  comparisons are exact; they are written on \<open>int\<close> and \<open>nat\<close>.
\<close>

definition round_ties_even :: "rat \<Rightarrow> int" where
  "round_ties_even q =
     (let n = \<lfloor>q\<rfloor>; r = q - of_int n in
      if r < 1 / 2 then n else if 1 / 2 < r then n + 1 else if even n then n else n + 1)"

definition exponent :: "rat \<Rightarrow> int" where
  "exponent x =
     (let n = bitlen (fst (quotient_of x)) - bitlen (snd (quotient_of x)) in
      if 2 powi n \<le> x then n else n - 1)"

definition binary64 :: "rat \<Rightarrow> rat" where
  "binary64 x =
     (if x = 0 then 0
      else
        let ulp = 2 powi (exponent \<bar>x\<bar> - 52) in
        sgn x * of_int (round_ties_even (\<bar>x\<bar> / ulp)) * ulp)"

text \<open>\<open>Math.round\<close> rounds a number to the nearest integer, halves upwards.\<close>

definition Math_round :: "rat \<Rightarrow> int" where
  "Math_round x = \<lfloor>x + 1 / 2\<rfloor>"

text \<open>Template-literal interpolation of a number: its decimal digits.\<close>

fun decimal :: "nat \<Rightarrow> string" where
  "decimal n =
     (if n div 10 = 0 then [] else decimal (n div 10)) @ [''0123456789'' ! (n mod 10)]"

definition String_number :: "int \<Rightarrow> string" where
  "String_number i = (if 0 \<le> i then decimal (nat i) else CHR ''-'' # decimal (nat (- i)))"

text \<open>\<open>Array.prototype.join\<close> on an array of strings.\<close>

fun join :: "string \<Rightarrow> string list \<Rightarrow> string" where
  "join sep [] = []"
| "join sep [x] = x"
| "join sep (x # y # ys) = x @ sep @ join sep (y # ys)"

text \<open>
  Reading a property of a plain object, \<open>obj[key]\<close>. The object's own properties are a
  map; a key that is not among them is looked up in \<open>Object.prototype\<close>, whose members are
  functions (and, for \<open>__proto__\<close>, the prototype object itself), and is \<open>undefined\<close>
  otherwise.
\<close>

datatype 'a property = Own 'a | Inherited | Undefined

definition Object_prototype_keys :: "string list" where
  "Object_prototype_keys =
     [''constructor'', ''hasOwnProperty'', ''isPrototypeOf'', ''propertyIsEnumerable'',
      ''toLocaleString'', ''toString'', ''valueOf'', ''__proto__'', ''__defineGetter__'',
      ''__defineSetter__'', ''__lookupGetter__'', ''__lookupSetter__'']"

definition get_property :: "(string \<rightharpoonup> 'a) \<Rightarrow> string \<Rightarrow> 'a property" where
  "get_property obj key =
     (case obj key of
        Some v \<Rightarrow> Own v
      | None \<Rightarrow> if key \<in> set Object_prototype_keys then Inherited else Undefined)"

text \<open>The em dash of the source's reason strings, as its three UTF-8 bytes.\<close>

definition em_dash :: string where
  "em_dash = [char_of (226::nat), char_of (128::nat), char_of (148::nat)]"

section \<open>Risk scoring engine (src/checkers/scoring.ts)\<close>

definition WEIGHT_COMPATIBILITY :: int where "WEIGHT_COMPATIBILITY = 40"
definition WEIGHT_SECURITY :: int where "WEIGHT_SECURITY = 30"
definition WEIGHT_DEPRECATION :: int where "WEIGHT_DEPRECATION = 15"
definition WEIGHT_MAINTENANCE :: int where "WEIGHT_MAINTENANCE = 15"

definition THRESHOLD_ALLOW :: int where "THRESHOLD_ALLOW = 75"
definition THRESHOLD_WARN :: int where "THRESHOLD_WARN = 40"

definition scoreCompatibility :: "CompatibilityReport \<Rightarrow> RiskFactor" where
  "scoreCompatibility report =
     (let total = length (checks report) in
      if total = 0 then
        \<lparr>name = ''Peer Compatibility'', score = WEIGHT_COMPATIBILITY,
         maxScore = WEIGHT_COMPATIBILITY, reason = ''No peer dependencies declared''\<rparr>
      else
        let missing = length (filter (\<lambda>c. status c = MISSING) (checks report));
            incompatible = length (filter (\<lambda>c. status c = INCOMPATIBLE) (checks report));
            issues = missing + incompatible;
            penalty = min (binary64 (rat_of_nat issues / rat_of_nat total)) 1;
            score =
              Math_round (binary64 (rat_of_int WEIGHT_COMPATIBILITY * binary64 (1 - penalty)));
            reason =
              (if issues = 0 then ''All peer dependencies satisfied''
               else
                 let parts =
                       (if missing > 0 then [decimal missing @ '' missing''] else []) @
                       (if incompatible > 0 then [decimal incompatible @ '' incompatible'']
                        else [])
                 in ''Peer issues: '' @ join '', '' parts)
        in \<lparr>name = ''Peer Compatibility'', score = score,
            maxScore = WEIGHT_COMPATIBILITY, reason = reason\<rparr>)"

definition scoreSecurity :: "SecurityReport \<Rightarrow> RiskFactor" where
  "scoreSecurity report =
     (let vulnerabilities = vulnerabilities report in
      if length vulnerabilities = 0 then
        \<lparr>name = ''Security'', score = WEIGHT_SECURITY,
         maxScore = WEIGHT_SECURITY, reason = ''No known vulnerabilities''\<rparr>
      else
        let critical = length (filter (\<lambda>v. severity v = CRITICAL) vulnerabilities);
            high = length (filter (\<lambda>v. severity v = HIGH) vulnerabilities);
            moderate = length (filter (\<lambda>v. severity v = MODERATE) vulnerabilities);
            penalty =
              min (binary64 (rat_of_nat (critical * 15 + high * 8 + moderate * 3) /
                   rat_of_int WEIGHT_SECURITY)) 1;
            score = Math_round (binary64 (rat_of_int WEIGHT_SECURITY * binary64 (1 - penalty)));
            reason =
              decimal (length vulnerabilities) @ '' vulnerabilit'' @
              (if length vulnerabilities = 1 then ''y'' else ''ies'') @ '' ('' @
              decimal critical @ '' critical, '' @ decimal high @ '' high)''
        in \<lparr>name = ''Security'', score = score, maxScore = WEIGHT_SECURITY, reason = reason\<rparr>)"

definition scoreDeprecation :: "PackageInfo option \<Rightarrow> RiskFactor" where
  "scoreDeprecation info =
     (case info of
        None \<Rightarrow>
          \<lparr>name = ''Deprecation'', score = WEIGHT_DEPRECATION, maxScore = WEIGHT_DEPRECATION,
           reason = ''Package info unavailable '' @ em_dash @ '' skipped''\<rparr>
      | Some i \<Rightarrow>
          (case deprecated i of
             Some msg \<Rightarrow>
               \<lparr>name = ''Deprecation'', score = 0, maxScore = WEIGHT_DEPRECATION,
                reason = ''Deprecated: '' @ msg\<rparr>
           | None \<Rightarrow>
               \<lparr>name = ''Deprecation'', score = WEIGHT_DEPRECATION,
                maxScore = WEIGHT_DEPRECATION, reason = ''Not deprecated''\<rparr>))"

text \<open>
  \<open>scoreMaintenance\<close> reads the clock. \<open>Date_parse\<close> stands for
  \<open>new Date(s).getTime()\<close> (milliseconds, \<open>None\<close> for the NaN of an invalid date) and
  \<open>now\<close> for \<open>Date.now()\<close>; both are parameters. A time value is an integer of at most
  \<open>8.64 \<times> 10^15\<close> in absolute value and so a binary64 value; the difference of two of them
  and its quotient by the milliseconds of a day are binary64 operations.
\<close>

definition scoreMaintenance ::
  "(string \<Rightarrow> int option) \<Rightarrow> int \<Rightarrow> PackageInfo option \<Rightarrow> RiskFactor" where
  "scoreMaintenance Date_parse now info =
     (case info of
        None \<Rightarrow>
          \<lparr>name = ''Maintenance'', score = WEIGHT_MAINTENANCE, maxScore = WEIGHT_MAINTENANCE,
           reason = ''Package info unavailable '' @ em_dash @ '' skipped''\<rparr>
      | Some i \<Rightarrow>
          let (p1, r1) =
                (case Date_parse (lastPublish i) of
                   None \<Rightarrow> (0, [])
                 | Some published \<Rightarrow>
                     let daysSince =
                           \<lfloor>binary64 (binary64 (rat_of_int now - rat_of_int published) /
                              rat_of_int (1000 * 60 * 60 * 24))\<rfloor>
                     in
                     if daysSince > 730 then
                       (10, [''Last published '' @ String_number daysSince @ '' days ago''])
                     else if daysSince > 365 then
                       (5, [''Last published '' @ String_number daysSince @ '' days ago''])
                     else (0, []));
              (p2, r2) =
                (if maintainerCount i = 0 then (5, [''No listed maintainers''])
                 else if maintainerCount i = 1 then (2, [''Single maintainer (bus factor)''])
                 else (0, []));
              (p3, r3) =
                (if weeklyDownloads i < 100 then
                   (3, [''Low usage: '' @ String_number (weeklyDownloads i) @
                        '' weekly downloads''])
                 else (0, []));
              score = max (WEIGHT_MAINTENANCE - p1 - p2 - p3) 0;
              reasons = r1 @ r2 @ r3;
              reason = (if length reasons > 0 then join ''; '' reasons else ''Actively maintained'')
          in \<lparr>name = ''Maintenance'', score = score, maxScore = WEIGHT_MAINTENANCE,
              reason = reason\<rparr>)"

definition calculateRiskScore ::
  "(string \<Rightarrow> int option) \<Rightarrow> int \<Rightarrow> CompatibilityReport \<Rightarrow> SecurityReport \<Rightarrow>
   PackageInfo option \<Rightarrow> RiskScore" where
  "calculateRiskScore Date_parse now compatibility security packageInfo =
     (let factors =
            [scoreCompatibility compatibility, scoreSecurity security,
             scoreDeprecation packageInfo, scoreMaintenance Date_parse now packageInfo];
          totalScore = foldl (\<lambda>sum f. sum + RiskFactor.score f) 0 factors;
          action =
            (if totalScore > THRESHOLD_ALLOW then ALLOW
             else if totalScore > THRESHOLD_WARN then WARN
             else BLOCK)
      in \<lparr>score = totalScore, action = action, factors = factors\<rparr>)"

section \<open>The outside world: errors, files, HTTP and the cache\<close>

text \<open>
  A thrown exception (a rejected promise) is a value: a function that can throw returns
  \<open>error + 'a\<close>, with \<open>Inl\<close> for the exception. The messages are not modelled.
\<close>

datatype error = TypeError | SyntaxError | SystemError

text \<open>
  A resolved absolute path is the list of its segments below the filesystem root, so that
  \<open>path.dirname\<close> is \<open>butlast\<close> (the root is its own parent) and \<open>path.join(p, f)\<close>
  appends a segment.
\<close>

type_synonym path = "string list"

text \<open>
  \<open>fetch(url)\<close> either rejects or resolves to a response with its \<open>ok\<close> flag and the
  outcome of \<open>res.json()\<close> (\<open>None\<close> when the body does not parse).
\<close>

datatype 'a fetch_result = Rejected | Resolved bool "'a option"

text \<open>
  The file-based cache (src/utils/cache.ts). One file per key holds a \<open>CacheEntry\<close>; the
  directory is modelled as a map from keys to entries (a missing or corrupt file is an absent
  key; distinct keys are taken to have distinct file names). Each filesystem call may fail:
  \<open>mkdir_ok\<close>, \<open>write_ok\<close> and \<open>unlink_ok\<close> say whether \<open>fs.mkdir\<close>, \<open>fs.writeFile\<close> and
  \<open>fs.unlink\<close> succeed during the call, and \<open>clock\<close> is \<open>Date.now()\<close>.
\<close>

record 'a CacheEntry =
  data :: 'a
  timestamp :: int
  ttl :: int

type_synonym 'a cache_dir = "string \<rightharpoonup> 'a CacheEntry"

record fs_outcome =
  mkdir_ok :: bool
  write_ok :: bool
  unlink_ok :: bool
  clock :: int

definition DEFAULT_TTL_MS :: int where
  "DEFAULT_TTL_MS = 24 * 60 * 60 * 1000"

definition cache_get ::
  "fs_outcome \<Rightarrow> 'a cache_dir \<Rightarrow> string \<Rightarrow> error + ('a option \<times> 'a cache_dir)" where
  "cache_get io dir key =
     (if \<not> mkdir_ok io then Inl SystemError
      else
        (case dir key of
           None \<Rightarrow> Inr (None, dir)
         | Some entry \<Rightarrow>
             let age = clock io - timestamp entry in
             if age > ttl entry then Inr (None, if unlink_ok io then dir(key := None) else dir)
             else Inr (Some (data entry), dir)))"

definition cache_set ::
  "fs_outcome \<Rightarrow> 'a cache_dir \<Rightarrow> string \<Rightarrow> 'a \<Rightarrow> int \<Rightarrow> error + 'a cache_dir" where
  "cache_set io dir key d t =
     (if \<not> mkdir_ok io then Inl SystemError
      else if \<not> write_ok io then Inl SystemError
      else Inr (dir(key \<mapsto> \<lparr>data = d, timestamp = clock io, ttl = t\<rparr>)))"

section \<open>Peer dependency compatibility checker (src/checkers/compatibility.ts)\<close>

subsection \<open>findPackageJson\<close>

text \<open>
  \<open>access\<close> tells whether \<open>fs.access\<close> resolves for a path. The loop counter runs from 0
  to \<open>maxDepth\<close>; the recursion is on the iterations that remain.
\<close>

fun findPackageJson :: "(path \<Rightarrow> bool) \<Rightarrow> path \<Rightarrow> nat \<Rightarrow> path option" where
  "findPackageJson access current 0 = None"
| "findPackageJson access current (Suc remaining) =
     (let candidate = current @ [''package.json''] in
      if access candidate then Some candidate
      else
        let parent = butlast current in
        if parent = current then None
        else findPackageJson access parent remaining)"

subsection \<open>getInstalledPackages\<close>

text \<open>
  A JSON object read only by key is a map. \<open>Object.assign(target, source)\<close> copies every
  property of the source over the target, so it is the right-biased \<open>++\<close>.
\<close>

record UserPackageJson =
  dependencies :: "(string \<rightharpoonup> string) option"
  devDependencies :: "(string \<rightharpoonup> string) option"

definition Object_assign :: "('k \<rightharpoonup> 'v) \<Rightarrow> ('k \<rightharpoonup> 'v) option \<Rightarrow> ('k \<rightharpoonup> 'v)" where
  "Object_assign target source = (case source of None \<Rightarrow> target | Some src \<Rightarrow> target ++ src)"

text \<open>
  \<open>read_json\<close> stands for \<open>fs.readFile\<close> followed by \<open>JSON.parse\<close>; either may throw, and
  \<open>getInstalledPackages\<close> does not catch.
\<close>

definition getInstalledPackages ::
  "(path \<Rightarrow> error + UserPackageJson) \<Rightarrow> path \<Rightarrow> error + (string \<rightharpoonup> string)" where
  "getInstalledPackages read_json pkgJsonPath =
     (case read_json pkgJsonPath of
        Inl e \<Rightarrow> Inl e
      | Inr pkg \<Rightarrow>
          let installed = Map.empty;
              installed = Object_assign installed (dependencies pkg);
              installed = Object_assign installed (devDependencies pkg)
          in Inr installed)"

subsection \<open>fetchPeerDependencies\<close>

text \<open>
  \<open>Record<string, string>\<close> objects that the checker iterates are association lists in the
  order of \<open>Object.entries\<close>. \<open>latest\<close> is \<open>data['dist-tags']?.latest\<close>; the \<open>optional\<close> flag of
  a \<open>peerDependenciesMeta\<close> entry is \<open>None\<close> when the entry has no such field.
\<close>

record NpmVersionData =
  peerDependencies :: "(string \<times> string) list option"
  peerDependenciesMeta :: "(string \<rightharpoonup> bool option) option"

record NpmRegistryResponse =
  latest :: "string option"
  versions :: "(string \<rightharpoonup> NpmVersionData) option"

record CachedPeers =
  peers :: "(string \<times> string) list"
  meta :: "string \<rightharpoonup> bool option"
  resolvedVersion :: string

text \<open>
  The body of the \<open>try\<close> block after a successful \<open>fetch\<close>: \<open>None\<close> is the \<open>null\<close> the
  function returns, also from its \<open>catch\<close>. An empty \<open>latest\<close> tag is falsy.
  \<open>data.versions[latestTag]\<close> is a property read: a tag that names a member of
  \<open>Object.prototype\<close> and no version yields that member, which is truthy and has neither
  \<open>peerDependencies\<close> nor \<open>peerDependenciesMeta\<close>.
\<close>

definition peers_of_response :: "NpmRegistryResponse \<Rightarrow> CachedPeers option" where
  "peers_of_response d =
     (case latest d of
        None \<Rightarrow> None
      | Some latestTag \<Rightarrow>
          if latestTag = [] then None
          else
            (case versions d of
               None \<Rightarrow> None
             | Some vs \<Rightarrow>
                 (case get_property vs latestTag of
                    Undefined \<Rightarrow> None
                  | Inherited \<Rightarrow>
                      Some \<lparr>peers = [], meta = Map.empty, resolvedVersion = latestTag\<rparr>
                  | Own versionData \<Rightarrow>
                      Some \<lparr>peers =
                              (case NpmVersionData.peerDependencies versionData of
                                 None \<Rightarrow> [] | Some ps \<Rightarrow> ps),
                            meta =
                              (case NpmVersionData.peerDependenciesMeta versionData of
                                 None \<Rightarrow> Map.empty | Some m \<Rightarrow> m),
                            resolvedVersion = latestTag\<rparr>)))"

definition fetchPeerDependencies ::
  "fs_outcome \<Rightarrow> (string \<Rightarrow> NpmRegistryResponse fetch_result) \<Rightarrow> CachedPeers cache_dir \<Rightarrow>
   string \<Rightarrow> error + (CachedPeers option \<times> CachedPeers cache_dir)" where
  "fetchPeerDependencies io registry dir pkgName =
     (let cacheKey = ''peers:'' @ pkgName in
      case cache_get io dir cacheKey of
        Inl e \<Rightarrow> Inl e
      | Inr (Some cached, dir1) \<Rightarrow> Inr (Some cached, dir1)
      | Inr (None, dir1) \<Rightarrow>
          (case registry pkgName of
             Rejected \<Rightarrow> Inr (None, dir1)
           | Resolved ok body \<Rightarrow>
               if \<not> ok then Inr (None, dir1)
               else
                 (case body of
                    None \<Rightarrow> Inr (None, dir1)
                  | Some d \<Rightarrow>
                      (case peers_of_response d of
                         None \<Rightarrow> Inr (None, dir1)
                       | Some result \<Rightarrow>
                           (case cache_set io dir1 cacheKey result DEFAULT_TTL_MS of
                              Inl e \<Rightarrow> Inr (None, dir1)
                            | Inr dir2 \<Rightarrow> Inr (Some result, dir2))))))"

subsection \<open>checkCompatibility\<close>

text \<open>
  \<open>semver.intersects\<close> belongs to the npm package \<open>semver\<close>, which the checker imports. It
  is a parameter \<open>intersects\<close> of the model; it can throw, and the checker calls it outside
  any \<open>try\<close>.
\<close>

definition dquote :: string where
  "dquote = [char_of (34::nat)]"

definition fixPart :: "string \<Rightarrow> string \<Rightarrow> string" where
  "fixPart peerName requiredRange = peerName @ ''@'' @ dquote @ requiredRange @ dquote"

definition failing :: "PeerCheck \<Rightarrow> bool" where
  "failing c \<longleftrightarrow> status c = MISSING \<or> status c = INCOMPATIBLE"

text \<open>
  \<open>installed[peerName]\<close> reads the object that \<open>getInstalledPackages\<close> built with
  \<open>Object.assign\<close> on \<open>{}\<close>. \<open>Object.assign\<close> sets properties by assignment, and
  \<open>Object.prototype\<close> answers the assignment of a string to \<open>__proto__\<close> by doing nothing:
  that key is never an own property of the object, whatever the manifest declares, and
  reading it gives the prototype. Every other key is read as usual.
\<close>

definition installed_property :: "(string \<rightharpoonup> string) \<Rightarrow> string \<Rightarrow> string property" where
  "installed_property installedMap peerName =
     (if peerName = ''__proto__'' then Inherited else get_property installedMap peerName)"

text \<open>
  One iteration of the \<open>for\<close> loop: the check pushed to \<open>checks\<close> and what is pushed to
  \<open>fixParts\<close>, or the exception of \<open>semver.intersects\<close>. A peer named like a member of
  \<open>Object.prototype\<close> (\<open>constructor\<close>, \<open>toString\<close>) that the manifest does not declare is
  not \<open>null\<close>: \<open>installedRange\<close> is then a function or an object, and
  \<open>semver.intersects\<close>, whose first step \<open>new Range(installedRange)\<close> calls a string
  method on it, throws a TypeError. A member of \<open>Object.prototype\<close> read through
  \<open>peerData.meta\<close> has no \<open>optional\<close> field, so the flag is read from the own entries.
\<close>

definition check_peer ::
  "(string \<Rightarrow> string \<Rightarrow> error + bool) \<Rightarrow> (string \<rightharpoonup> bool option) \<Rightarrow> (string \<rightharpoonup> string) \<Rightarrow>
   string \<times> string \<Rightarrow> error + (PeerCheck \<times> string list)" where
  "check_peer intersects metaMap installedMap entry =
     (let peerName = fst entry;
          requiredRange = snd entry;
          isOptional = (case metaMap peerName of Some (Some b) \<Rightarrow> b | _ \<Rightarrow> False);
          installedRange = installed_property installedMap peerName
      in
        case
          (case installedRange of
             Undefined \<Rightarrow>
               if isOptional then Inr (OPTIONAL_MISSING, None, [])
               else
                 Inr (MISSING, Some (''npm install '' @ fixPart peerName requiredRange),
                      [fixPart peerName requiredRange])
           | Inherited \<Rightarrow> Inl TypeError
           | Own r \<Rightarrow>
               (case intersects r requiredRange of
                  Inl e \<Rightarrow> Inl e
                | Inr overlapping \<Rightarrow>
                    if overlapping then Inr (COMPATIBLE, None, [])
                    else
                      Inr (INCOMPATIBLE, Some (''npm install '' @ fixPart peerName requiredRange),
                           [fixPart peerName requiredRange])))
        of
          Inl e \<Rightarrow> Inl e
        | Inr (st, fix, pushed) \<Rightarrow>
            Inr (\<lparr>PeerCheck.name = peerName, required = requiredRange,
                  installed = (case installedRange of Own r \<Rightarrow> Some r | _ \<Rightarrow> None),
                  status = st, fixCommand = fix\<rparr>, pushed))"

fun check_peers ::
  "(string \<Rightarrow> string \<Rightarrow> error + bool) \<Rightarrow> (string \<rightharpoonup> bool option) \<Rightarrow> (string \<rightharpoonup> string) \<Rightarrow>
   (string \<times> string) list \<Rightarrow> error + (PeerCheck list \<times> string list)" where
  "check_peers intersects metaMap installedMap [] = Inr ([], [])"
| "check_peers intersects metaMap installedMap (entry # rest) =
     (case check_peer intersects metaMap installedMap entry of
        Inl e \<Rightarrow> Inl e
      | Inr (c, pushed) \<Rightarrow>
          (case check_peers intersects metaMap installedMap rest of
             Inl e \<Rightarrow> Inl e
           | Inr (cs, fixParts) \<Rightarrow> Inr (c # cs, pushed @ fixParts)))"

text \<open>
  \<open>checks.find(...)\<close> returns the first failing element of the array itself, and the
  assignment to its \<open>fixCommand\<close> changes that element in place.
\<close>

fun attach_to_first_failing :: "string \<Rightarrow> PeerCheck list \<Rightarrow> PeerCheck list" where
  "attach_to_first_failing combinedFix [] = []"
| "attach_to_first_failing combinedFix (c # cs) =
     (if status c = MISSING \<or> status c = INCOMPATIBLE
      then c\<lparr>fixCommand := Some combinedFix\<rparr> # cs
      else c # attach_to_first_failing combinedFix cs)"

record world =
  fs_access :: "path \<Rightarrow> bool"
  fs_read_json :: "path \<Rightarrow> error + UserPackageJson"
  npm_registry :: "string \<Rightarrow> NpmRegistryResponse fetch_result"
  semver_intersects :: "string \<Rightarrow> string \<Rightarrow> error + bool"
  fs_io :: fs_outcome

definition checkCompatibility ::
  "world \<Rightarrow> CachedPeers cache_dir \<Rightarrow> string \<Rightarrow> path \<Rightarrow>
   error + (CompatibilityReport \<times> CachedPeers cache_dir)" where
  "checkCompatibility w dir pkgName projectPath =
     (case findPackageJson (fs_access w) projectPath 3 of
        None \<Rightarrow>
          Inr (\<lparr>CompatibilityReport.packageName = pkgName, checks = [], compatible = True\<rparr>,
               dir)
      | Some pkgJsonPath \<Rightarrow>
          (case getInstalledPackages (fs_read_json w) pkgJsonPath of
             Inl e \<Rightarrow> Inl e
           | Inr installedMap \<Rightarrow>
               (case fetchPeerDependencies (fs_io w) (npm_registry w) dir pkgName of
                  Inl e \<Rightarrow> Inl e
                | Inr (peerData, dir1) \<Rightarrow>
                    if peerData = None \<or> length (peers (the peerData)) = 0 then
                      Inr (\<lparr>CompatibilityReport.packageName = pkgName, checks = [],
                            compatible = True\<rparr>, dir1)
                    else
                      (case check_peers (semver_intersects w) (meta (the peerData)) installedMap
                              (peers (the peerData)) of
                         Inl e \<Rightarrow> Inl e
                       | Inr (checks0, fixParts) \<Rightarrow>
                           let checks =
                                 (if length fixParts > 0
                                  then attach_to_first_failing
                                         (''npm install '' @ join '' '' fixParts) checks0
                                  else checks0);
                               compatible =
                                 list_all (\<lambda>c. status c = COMPATIBLE \<or> status c = OPTIONAL_MISSING)
                                   checks
                           in Inr (\<lparr>CompatibilityReport.packageName = pkgName,
                                    checks = checks, compatible = compatible\<rparr>, dir1)))))"

section \<open>Security vulnerability checker (src/checkers/security.ts)\<close>

text \<open>
  The raw OSV shapes. Every field is optional in the source; the field names carry a prefix
  here, because the normalised \<open>SecurityVulnerability\<close> uses the same names.
\<close>

record OsvSeverityEntry =
  sev_type :: "string option"
  sev_score :: "string option"

record OsvEvent =
  introduced :: "string option"
  fixed :: "string option"

record OsvAffectedRange =
  range_type :: "string option"
  events :: "OsvEvent list option"

record OsvAffected =
  ranges :: "OsvAffectedRange list option"

record OsvReference =
  ref_type :: "string option"
  ref_url :: "string option"

record OsvVuln =
  osv_id :: "string option"
  osv_summary :: "string option"
  osv_severity :: "OsvSeverityEntry list option"
  osv_affected :: "OsvAffected list option"
  osv_references :: "OsvReference list option"

record OsvResponse =
  vulns :: "OsvVuln list option"

text \<open>
  \<open>parseFloat\<close> is a parameter: it returns a double, which is NaN, an infinity or a
  rational number. Only comparisons with 9, 7 and 4 are made on it.
\<close>

datatype js_number = NaN | Finite rat | PosInfinity | NegInfinity

fun js_ge :: "js_number \<Rightarrow> rat \<Rightarrow> bool" where
  "js_ge NaN q = False"
| "js_ge (Finite x) q = (x \<ge> q)"
| "js_ge PosInfinity q = True"
| "js_ge NegInfinity q = False"

text \<open>A string is truthy when it is present and not empty.\<close>

definition truthy :: "string option \<Rightarrow> bool" where
  "truthy s = (case s of None \<Rightarrow> False | Some t \<Rightarrow> t \<noteq> [])"

definition normalizeSeverity ::
  "(string \<Rightarrow> js_number) \<Rightarrow> OsvSeverityEntry list option \<Rightarrow> Severity" where
  "normalizeSeverity parseFloat sevEntries =
     (case sevEntries of
        None \<Rightarrow> MODERATE
      | Some [] \<Rightarrow> MODERATE
      | Some (first # others) \<Rightarrow>
          let cvss =
                (case find (\<lambda>s. sev_type s = Some ''CVSS_V3'') (first # others) of
                   Some s \<Rightarrow> s | None \<Rightarrow> first);
              scoreStr = sev_score cvss
          in
            if \<not> truthy scoreStr then MODERATE
            else
              let num = parseFloat (the scoreStr) in
              if num = NaN then MODERATE
              else if js_ge num 9 then CRITICAL
              else if js_ge num 7 then HIGH
              else if js_ge num 4 then MODERATE
              else LOW)"

definition event_parts :: "OsvEvent \<Rightarrow> string list" where
  "event_parts event =
     (if truthy (introduced event) then [''>='' @ the (introduced event)] else []) @
     (if truthy (fixed event) then [''<'' @ the (fixed event)] else [])"

definition extractAffectedVersions :: "OsvAffected list option \<Rightarrow> string" where
  "extractAffectedVersions affected =
     (case affected of
        None \<Rightarrow> ''unknown''
      | Some [] \<Rightarrow> ''unknown''
      | Some entries \<Rightarrow>
          let parts =
                concat (map (\<lambda>entry.
                  concat (map (\<lambda>range.
                    concat (map event_parts
                      (case events range of None \<Rightarrow> [] | Some es \<Rightarrow> es)))
                    (case ranges entry of None \<Rightarrow> [] | Some rs \<Rightarrow> rs)))
                  entries)
          in if length parts > 0 then join '', '' parts else ''unknown'')"

definition pickUrl :: "OsvReference list option \<Rightarrow> string" where
  "pickUrl refs =
     (case refs of
        None \<Rightarrow> []
      | Some [] \<Rightarrow> []
      | Some (first # others) \<Rightarrow>
          (case (case find (\<lambda>r. ref_type r = Some ''ADVISORY'') (first # others) of
                   None \<Rightarrow> None | Some advisory \<Rightarrow> ref_url advisory) of
             Some u \<Rightarrow> u
           | None \<Rightarrow> (case ref_url first of Some u \<Rightarrow> u | None \<Rightarrow> [])))"

definition SECURITY_CACHE_TTL_MS :: int where
  "SECURITY_CACHE_TTL_MS = 7 * 24 * 60 * 60 * 1000"

definition normalizeVuln :: "(string \<Rightarrow> js_number) \<Rightarrow> OsvVuln \<Rightarrow> SecurityVulnerability" where
  "normalizeVuln parseFloat v =
     \<lparr>vulnId = (case osv_id v of None \<Rightarrow> ''UNKNOWN'' | Some i \<Rightarrow> i),
      summary = (case osv_summary v of None \<Rightarrow> ''No description available'' | Some t \<Rightarrow> t),
      severity = normalizeSeverity parseFloat (osv_severity v),
      affectedVersions = extractAffectedVersions (osv_affected v),
      url = pickUrl (osv_references v)\<rparr>"

text \<open>
  \<open>osv\<close> is the POST to the OSV query endpoint for a package and a version. \<open>cache.get\<close>
  is called before the \<open>try\<close>, so its exception leaves the function; everything after is
  inside the \<open>try\<close>, whose \<open>catch\<close> returns the empty report, also when \<open>cache.set\<close> throws.
\<close>

definition checkSecurity ::
  "fs_outcome \<Rightarrow> (string \<Rightarrow> string \<Rightarrow> OsvResponse fetch_result) \<Rightarrow> (string \<Rightarrow> js_number) \<Rightarrow>
   SecurityReport cache_dir \<Rightarrow> string \<Rightarrow> string \<Rightarrow>
   error + (SecurityReport \<times> SecurityReport cache_dir)" where
  "checkSecurity io osv parseFloat dir pkgName ver =
     (let cacheKey = ''security:'' @ pkgName @ ''@'' @ ver in
      case cache_get io dir cacheKey of
        Inl e \<Rightarrow> Inl e
      | Inr (Some cached, dir1) \<Rightarrow> Inr (cached, dir1)
      | Inr (None, dir1) \<Rightarrow>
          let emptyReport =
                \<lparr>SecurityReport.packageName = pkgName, vulnerabilities = [],
                 hasCritical = False\<rparr>
          in
            (case osv pkgName ver of
               Rejected \<Rightarrow> Inr (emptyReport, dir1)
             | Resolved ok body \<Rightarrow>
                 if \<not> ok then Inr (emptyReport, dir1)
                 else
                   (case body of
                      None \<Rightarrow> Inr (emptyReport, dir1)
                    | Some d \<Rightarrow>
                        if vulns d = None \<or> length (the (vulns d)) = 0 then
                          (case cache_set io dir1 cacheKey emptyReport SECURITY_CACHE_TTL_MS of
                             Inl e \<Rightarrow> Inr (emptyReport, dir1)
                           | Inr dir2 \<Rightarrow> Inr (emptyReport, dir2))
                        else
                          let vulnerabilities = map (normalizeVuln parseFloat) (the (vulns d));
                              hasCritical =
                                list_ex (\<lambda>v. SecurityVulnerability.severity v = CRITICAL)
                                  vulnerabilities;
                              report =
                                \<lparr>SecurityReport.packageName = pkgName,
                                 vulnerabilities = vulnerabilities, hasCritical = hasCritical\<rparr>
                          in
                            (case cache_set io dir1 cacheKey report SECURITY_CACHE_TTL_MS of
                               Inl e \<Rightarrow> Inr (emptyReport, dir1)
                             | Inr dir2 \<Rightarrow> Inr (report, dir2)))))"

section \<open>The semver package: range intersection\<close>

text \<open>
  Modelled from the spec: the VersionRangeResolver of section 4.1, whose code is not among
  the sources. The repository has no resolver of its own: \<open>checkCompatibility\<close> calls
  \<open>semver.intersects\<close> of the npm package \<open>semver\<close> (a dependency, \<open>^7.6.0\<close>). Section 4.1
  words the contract as standard semver range intersection, which is what that function
  computes, so the definitions of this section follow the package (\<open>classes/semver.js\<close>,
  \<open>classes/comparator.js\<close>, \<open>classes/range.js\<close> and \<open>ranges/intersects.js\<close> of 7.x): a
  version is three numbers and a list of prerelease identifiers, a comparator is an operator
  with a version or the comparator \<open>ANY\<close>, a range is a list of comparator lists, and the
  functions are named after the ones of the package. Section 4.1 adds two sentences that the
  package does not bear out: that an unparseable range does not raise, and that the decision
  is symmetric. There the definitions keep to the package, because it is what the checker
  calls, and the two sentences are examined as claims.
\<close>

subsection \<open>Versions and their order\<close>

datatype prerelease_id = Numeric nat | Alphanumeric string

datatype SemVer = SemVer (major: nat) (minor: nat) (patch: nat) (prerelease: "prerelease_id list")

datatype operator = OpEq | OpLt | OpLte | OpGt | OpGte

datatype Comparator = ANY | Comparator operator SemVer

text \<open>JavaScript's \<open><\<close> on strings of ASCII characters.\<close>

fun string_lt :: "string \<Rightarrow> string \<Rightarrow> bool" where
  "string_lt [] [] = False"
| "string_lt [] (y # ys) = True"
| "string_lt (x # xs) [] = False"
| "string_lt (x # xs) (y # ys) =
     (if x = y then string_lt xs ys else (of_char x :: nat) < of_char y)"

fun compareIdentifiers :: "prerelease_id \<Rightarrow> prerelease_id \<Rightarrow> int" where
  "compareIdentifiers (Numeric a) (Numeric b) = (if a = b then 0 else if a < b then - 1 else 1)"
| "compareIdentifiers (Numeric a) (Alphanumeric b) = - 1"
| "compareIdentifiers (Alphanumeric a) (Numeric b) = 1"
| "compareIdentifiers (Alphanumeric a) (Alphanumeric b) =
     (if a = b then 0 else if string_lt a b then - 1 else 1)"

definition compareMain :: "SemVer \<Rightarrow> SemVer \<Rightarrow> int" where
  "compareMain v w =
     (if compareIdentifiers (Numeric (major v)) (Numeric (major w)) \<noteq> 0
      then compareIdentifiers (Numeric (major v)) (Numeric (major w))
      else if compareIdentifiers (Numeric (minor v)) (Numeric (minor w)) \<noteq> 0
      then compareIdentifiers (Numeric (minor v)) (Numeric (minor w))
      else compareIdentifiers (Numeric (patch v)) (Numeric (patch w)))"

fun comparePre_loop :: "prerelease_id list \<Rightarrow> prerelease_id list \<Rightarrow> int" where
  "comparePre_loop [] [] = 0"
| "comparePre_loop (a # as) [] = 1"
| "comparePre_loop [] (b # bs) = - 1"
| "comparePre_loop (a # as) (b # bs) =
     (if a = b then comparePre_loop as bs else compareIdentifiers a b)"

definition comparePre :: "SemVer \<Rightarrow> SemVer \<Rightarrow> int" where
  "comparePre v w =
     (if prerelease v \<noteq> [] \<and> prerelease w = [] then - 1
      else if prerelease v = [] \<and> prerelease w \<noteq> [] then 1
      else if prerelease v = [] \<and> prerelease w = [] then 0
      else comparePre_loop (prerelease v) (prerelease w))"

definition SemVer_compare :: "SemVer \<Rightarrow> SemVer \<Rightarrow> int" where
  "SemVer_compare v w =
     (if w = v then 0
      else if compareMain v w \<noteq> 0 then compareMain v w
      else comparePre v w)"

fun cmp :: "SemVer \<Rightarrow> operator \<Rightarrow> SemVer \<Rightarrow> bool" where
  "cmp a OpEq b = (SemVer_compare a b = 0)"
| "cmp a OpGt b = (SemVer_compare a b > 0)"
| "cmp a OpGte b = (SemVer_compare a b \<ge> 0)"
| "cmp a OpLt b = (SemVer_compare a b < 0)"
| "cmp a OpLte b = (SemVer_compare a b \<le> 0)"

subsection \<open>Comparators and ranges\<close>

text \<open>
  The null set is the comparator \<open><0.0.0-0\<close>. \<open>Range_test c v\<close> is
  \<open>new Range(c.value).test(v)\<close>: the version has to satisfy the comparator, and a
  prerelease version is only accepted by a comparator on a prerelease of the same
  \<open>major.minor.patch\<close>.
\<close>

definition isNullSet :: "Comparator \<Rightarrow> bool" where
  "isNullSet c = (c = Comparator OpLt (SemVer 0 0 0 [Numeric 0]))"

definition isAny :: "Comparator \<Rightarrow> bool" where
  "isAny c = (c = ANY)"

fun Range_test :: "Comparator \<Rightarrow> SemVer \<Rightarrow> bool" where
  "Range_test ANY v = (prerelease v = [])"
| "Range_test (Comparator op s) v =
     (cmp v op s \<and>
      (prerelease v = [] \<or>
       (prerelease s \<noteq> [] \<and> major s = major v \<and> minor s = minor v \<and> patch s = patch v)))"

text \<open>
  \<open>Comparator.intersects\<close>. \<open>below_zero c\<close> is \<open>c.value.startsWith('<0.0.0')\<close>.
\<close>

fun startsWith_gt :: "operator \<Rightarrow> bool" where
  "startsWith_gt OpGt = True"
| "startsWith_gt OpGte = True"
| "startsWith_gt _ = False"

fun startsWith_lt :: "operator \<Rightarrow> bool" where
  "startsWith_lt OpLt = True"
| "startsWith_lt OpLte = True"
| "startsWith_lt _ = False"

fun includes_eq :: "operator \<Rightarrow> bool" where
  "includes_eq OpLte = True"
| "includes_eq OpGte = True"
| "includes_eq _ = False"

fun below_zero :: "Comparator \<Rightarrow> bool" where
  "below_zero (Comparator OpLt v) = (major v = 0 \<and> minor v = 0 \<and> patch v = 0)"
| "below_zero _ = False"

fun Comparator_intersects :: "Comparator \<Rightarrow> Comparator \<Rightarrow> bool" where
  "Comparator_intersects ANY c = True"
| "Comparator_intersects (Comparator OpEq v) c = Range_test c v"
| "Comparator_intersects (Comparator op v) ANY = True"
| "Comparator_intersects (Comparator op v) (Comparator OpEq w) = Range_test (Comparator op v) w"
| "Comparator_intersects (Comparator op v) (Comparator op' w) =
     (if below_zero (Comparator op v) \<or> below_zero (Comparator op' w) then False
      else if startsWith_gt op \<and> startsWith_gt op' then True
      else if startsWith_lt op \<and> startsWith_lt op' then True
      else if v = w \<and> includes_eq op \<and> includes_eq op' then True
      else if cmp v OpLt w \<and> startsWith_gt op \<and> startsWith_lt op' then True
      else if cmp v OpGt w \<and> startsWith_lt op \<and> startsWith_gt op' then True
      else False)"

text \<open>
  \<open>isSatisfiable\<close> pops the comparators from the end of the list and tests each one
  against those before it; \<open>satisfiable_popped\<close> runs on the reversed list.
\<close>

fun satisfiable_popped :: "Comparator list \<Rightarrow> bool" where
  "satisfiable_popped [] = True"
| "satisfiable_popped (testComparator # remaining) =
     (list_all (\<lambda>otherComparator. Comparator_intersects testComparator otherComparator) remaining \<and>
      satisfiable_popped remaining)"

definition isSatisfiable :: "Comparator list \<Rightarrow> bool" where
  "isSatisfiable comparators = satisfiable_popped (rev comparators)"

definition Range_intersects :: "Comparator list list \<Rightarrow> Comparator list list \<Rightarrow> bool" where
  "Range_intersects this other =
     list_ex (\<lambda>thisComparators.
       isSatisfiable thisComparators \<and>
       list_ex (\<lambda>rangeComparators.
         isSatisfiable rangeComparators \<and>
         list_all (\<lambda>thisComparator.
           list_all (\<lambda>rangeComparator. Comparator_intersects thisComparator rangeComparator)
             rangeComparators)
           thisComparators)
         other)
       this"
subsection \<open>Parsing a range\<close>

text \<open>
  The package parses with regular expressions. The model decides three cases. A range with
  a character that no semver syntax contains (a printable ASCII character other than
  letters, digits and \<open>-.+*<>=~^|\<close>, as in \<open>github:user/repo\<close> or \<open>workspace:*\<close>) is invalid and
  \<open>new Range\<close> throws a TypeError. A range of the fragment parsed below (comparator sets
  separated by \<open>||\<close>; comparators separated by spaces; a comparator is \<open>*\<close> or a full version
  \<open>major.minor.patch\<close> with an optional prerelease tag, after one of \<open>< <= > >= = ^ ~\<close> or
  nothing) yields the comparators the package yields. Every other string (partial
  versions and x-ranges, hyphen ranges, build metadata, a \<open>v\<close> prefix, other white space,
  numbers of more than 15 digits) is left to the parameter \<open>other_syntax\<close>, which returns
  the parsed range or \<open>None\<close> when the package throws; theorems hold for every such
  parameter.
\<close>


definition is_digit :: "char \<Rightarrow> bool" where
  "is_digit c = (48 \<le> (of_char c :: nat) \<and> (of_char c :: nat) \<le> 57)"

definition is_letter :: "char \<Rightarrow> bool" where
  "is_letter c =
     ((65 \<le> (of_char c :: nat) \<and> (of_char c :: nat) \<le> 90) \<or>
      (97 \<le> (of_char c :: nat) \<and> (of_char c :: nat) \<le> 122))"

definition foreign :: "char \<Rightarrow> bool" where
  "foreign c =
     (33 \<le> (of_char c :: nat) \<and> (of_char c :: nat) \<le> 126 \<and>
      \<not> is_digit c \<and> \<not> is_letter c \<and> c \<notin> set ''-.+*<>=~^|'')"

fun split_char :: "char \<Rightarrow> string \<Rightarrow> string list" where
  "split_char sep [] = [[]]"
| "split_char sep (c # cs) =
     (if c = sep then [] # split_char sep cs
      else (case split_char sep cs of [] \<Rightarrow> [[c]] | p # ps \<Rightarrow> (c # p) # ps))"

fun split_bars :: "string \<Rightarrow> string list" where
  "split_bars [] = [[]]"
| "split_bars [c] = [[c]]"
| "split_bars (c # d # cs) =
     (if c = CHR ''|'' \<and> d = CHR ''|'' then [] # split_bars cs
      else (case split_bars (d # cs) of [] \<Rightarrow> [[c]] | p # ps \<Rightarrow> (c # p) # ps))"

definition words :: "string \<Rightarrow> string list" where
  "words s = filter (\<lambda>w. w \<noteq> []) (split_char CHR '' '' s)"

definition parse_numeric :: "string \<Rightarrow> nat option" where
  "parse_numeric s =
     (if s \<noteq> [] \<and> list_all is_digit s \<and> (s = ''0'' \<or> hd s \<noteq> CHR ''0'') \<and> length s \<le> 15
      then Some (foldl (\<lambda>n c. 10 * n + (of_char c - 48)) 0 s)
      else None)"

definition parse_prerelease_id :: "string \<Rightarrow> prerelease_id option" where
  "parse_prerelease_id s =
     (if s = [] \<or> length s > 100 then None
      else if list_all is_digit s then map_option Numeric (parse_numeric s)
      else if list_all (\<lambda>c. is_digit c \<or> is_letter c \<or> c = CHR ''-'') s
      then Some (Alphanumeric s)
      else None)"

fun all_some :: "'a option list \<Rightarrow> 'a list option" where
  "all_some [] = Some []"
| "all_some (None # xs) = None"
| "all_some (Some x # xs) = map_option (Cons x) (all_some xs)"

definition parse_version :: "string \<Rightarrow> SemVer option" where
  "parse_version s =
     (let main = takeWhile (\<lambda>c. c \<noteq> CHR ''-'') s;
          rest = dropWhile (\<lambda>c. c \<noteq> CHR ''-'') s
      in
        case all_some (map parse_numeric (split_char CHR ''.'' main)) of
          Some [M, m, p] \<Rightarrow>
            (if rest = [] then Some (SemVer M m p [])
             else
               (case all_some (map parse_prerelease_id (split_char CHR ''.'' (tl rest))) of
                  Some pre \<Rightarrow> Some (SemVer M m p pre)
                | None \<Rightarrow> None))
        | _ \<Rightarrow> None)"

text \<open>
  The desugaring of \<open>^\<close> and \<open>~\<close> for a full version, and the replacement of
  \<open>>=0.0.0\<close> by \<open>ANY\<close>.
\<close>

definition replaceCaret :: "SemVer \<Rightarrow> Comparator list" where
  "replaceCaret v =
     [Comparator OpGte v,
      Comparator OpLt
        (if major v = 0 then
           (if minor v = 0 then SemVer 0 0 (patch v + 1) [Numeric 0]
            else SemVer 0 (minor v + 1) 0 [Numeric 0])
         else SemVer (major v + 1) 0 0 [Numeric 0])]"

definition replaceTilde :: "SemVer \<Rightarrow> Comparator list" where
  "replaceTilde v =
     [Comparator OpGte v, Comparator OpLt (SemVer (major v) (minor v + 1) 0 [Numeric 0])]"

definition replaceGTE0 :: "Comparator \<Rightarrow> Comparator" where
  "replaceGTE0 c = (if c = Comparator OpGte (SemVer 0 0 0 []) then ANY else c)"

definition parse_token :: "string \<Rightarrow> Comparator list option" where
  "parse_token t =
     (if t = ''*'' then Some [ANY]
      else if take 2 t = ''>='' then
        map_option (\<lambda>v. [Comparator OpGte v]) (parse_version (drop 2 t))
      else if take 2 t = ''<='' then
        map_option (\<lambda>v. [Comparator OpLte v]) (parse_version (drop 2 t))
      else if take 1 t = ''>'' then
        map_option (\<lambda>v. [Comparator OpGt v]) (parse_version (drop 1 t))
      else if take 1 t = ''<'' then
        map_option (\<lambda>v. [Comparator OpLt v]) (parse_version (drop 1 t))
      else if take 1 t = ''='' then
        map_option (\<lambda>v. [Comparator OpEq v]) (parse_version (drop 1 t))
      else if take 1 t = ''^'' then map_option replaceCaret (parse_version (drop 1 t))
      else if take 1 t = ''~'' then map_option replaceTilde (parse_version (drop 1 t))
      else map_option (\<lambda>v. [Comparator OpEq v]) (parse_version t))"

text \<open>
  The end of \<open>parseRange\<close>: a null set replaces everything, equal comparators are kept
  once, and \<open>ANY\<close> is dropped beside other comparators. \<open>Range_post\<close> is the end of the
  constructor of \<open>Range\<close>.
\<close>

fun dedupe :: "'a list \<Rightarrow> 'a list" where
  "dedupe [] = []"
| "dedupe (x # xs) = x # filter (\<lambda>y. y \<noteq> x) (dedupe xs)"

definition parseRange_post :: "Comparator list \<Rightarrow> Comparator list" where
  "parseRange_post comparators =
     (case find isNullSet comparators of
        Some c \<Rightarrow> [c]
      | None \<Rightarrow>
          let rangeMap = dedupe comparators in
          if length rangeMap > 1 \<and> ANY \<in> set rangeMap then filter (\<lambda>c. c \<noteq> ANY) rangeMap
          else rangeMap)"

definition parseRange :: "string \<Rightarrow> Comparator list option" where
  "parseRange part =
     (if length part > 100 then None
      else if words part = [] then Some [ANY]
      else
        map_option (\<lambda>cs. parseRange_post (map replaceGTE0 (concat cs)))
          (all_some (map parse_token (words part))))"

definition Range_post :: "Comparator list list \<Rightarrow> Comparator list list" where
  "Range_post sets =
     (if length sets > 1 then
        let first = hd sets;
            kept = filter (\<lambda>c. \<not> isNullSet (hd c)) sets
        in
          if kept = [] then [first]
          else if length kept > 1 then
            (case find (\<lambda>c. length c = 1 \<and> isAny (hd c)) kept of
               Some c \<Rightarrow> [c]
             | None \<Rightarrow> kept)
          else kept
      else sets)"

definition parse_fragment :: "string \<Rightarrow> Comparator list list option" where
  "parse_fragment raw = map_option Range_post (all_some (map parseRange (split_bars raw)))"

text \<open>
  \<open>new Range(raw)\<close> and \<open>intersects(r1, r2)\<close> of \<open>ranges/intersects.js\<close>, which builds
  both ranges (either constructor may throw) and then asks the first whether it intersects
  the second.
\<close>

definition new_Range ::
  "(string \<Rightarrow> Comparator list list option) \<Rightarrow> string \<Rightarrow> error + Comparator list list" where
  "new_Range other_syntax raw =
     (if list_ex foreign raw then Inl TypeError
      else
        (case parse_fragment raw of
           Some sets \<Rightarrow> Inr sets
         | None \<Rightarrow>
             (case other_syntax raw of
                None \<Rightarrow> Inl TypeError
              | Some sets \<Rightarrow> Inr sets)))"

definition semver_package_intersects ::
  "(string \<Rightarrow> Comparator list list option) \<Rightarrow> string \<Rightarrow> string \<Rightarrow> error + bool" where
  "semver_package_intersects other_syntax r1 r2 =
     (case new_Range other_syntax r1 of
        Inl e \<Rightarrow> Inl e
      | Inr a \<Rightarrow>
          (case new_Range other_syntax r2 of
             Inl e \<Rightarrow> Inl e
           | Inr b \<Rightarrow> Inr (Range_intersects a b)))"


text \<open>
  Predicates for the statements about symmetry: a range that pins an exact prerelease
  version (a comparator \<open>=v\<close> with prerelease tag), and a range with the comparator \<open>ANY\<close>.
\<close>

definition pins_prerelease :: "Comparator \<Rightarrow> bool" where
  "pins_prerelease c = (case c of Comparator OpEq v \<Rightarrow> prerelease v \<noteq> [] | _ \<Rightarrow> False)"

definition pins_prerelease_range :: "Comparator list list \<Rightarrow> bool" where
  "pins_prerelease_range r = list_ex (list_ex pins_prerelease) r"

definition has_any :: "Comparator list list \<Rightarrow> bool" where
  "has_any r = list_ex (list_ex isAny) r"

definition pins_prerelease_version ::
  "(string \<Rightarrow> Comparator list list option) \<Rightarrow> string \<Rightarrow> bool" where
  "pins_prerelease_version other_syntax raw =
     (case new_Range other_syntax raw of Inl e \<Rightarrow> False | Inr r \<Rightarrow> pins_prerelease_range r)"

definition allows_any_version ::
  "(string \<Rightarrow> Comparator list list option) \<Rightarrow> string \<Rightarrow> bool" where
  "allows_any_version other_syntax raw =
     (case new_Range other_syntax raw of Inl e \<Rightarrow> False | Inr r \<Rightarrow> has_any r)"

section \<open>Reference formulas and sample inputs\<close>

text \<open>
  The security factor as the specification words it: the penalty fraction is
  \<open>min(1, (15 critical + 8 high + 3 moderate) / maxScore)\<close> and the score is
  \<open>maxScore \<times> (1 - penalty)\<close>, rounded, in exact arithmetic. It is compared with
  \<open>scoreSecurity\<close>, which computes in binary64, below. \<open>unit_roundoff\<close> bounds the relative
  error of one binary64 operation.
\<close>

definition unit_roundoff :: rat where
  "unit_roundoff = 1 / 2 ^ 53"

definition count_severity :: "Severity \<Rightarrow> SecurityVulnerability list \<Rightarrow> nat" where
  "count_severity sv vs = length (filter (\<lambda>v. severity v = sv) vs)"

definition security_factor_spec :: "nat \<Rightarrow> nat \<Rightarrow> nat \<Rightarrow> int" where
  "security_factor_spec criticalCount highCount moderateCount =
     Math_round (30 * (1 - min 1
       (rat_of_nat (15 * criticalCount + 8 * highCount + 3 * moderateCount) / 30)))"

text \<open>Sample inputs for the scoring engine.\<close>

definition sample_vuln :: "Severity \<Rightarrow> SecurityVulnerability" where
  "sample_vuln sv =
     \<lparr>vulnId = ''GHSA-0000'', summary = ''sample advisory'', severity = sv,
      affectedVersions = ''unknown'', url = []\<rparr>"

definition sample_security :: "SecurityVulnerability list \<Rightarrow> SecurityReport" where
  "sample_security vs =
     \<lparr>SecurityReport.packageName = ''pkg'', vulnerabilities = vs,
      hasCritical = list_ex (\<lambda>v. severity v = CRITICAL) vs\<rparr>"

definition no_peers :: CompatibilityReport where
  "no_peers = \<lparr>CompatibilityReport.packageName = ''pkg'', checks = [], compatible = True\<rparr>"

definition sample_info :: "string option \<Rightarrow> int \<Rightarrow> PackageInfo" where
  "sample_info dep maintainers =
     \<lparr>PackageInfo.name = ''pkg'', version = ''1.0.0'', description = [], deprecated = dep,
      lastPublish = ''2024-01-01'', weeklyDownloads = 50000, maintainerCount = maintainers,
      license = ''MIT'', peerDependencies = [], peerDependenciesMeta = [], homepage = [],
      repository = []\<rparr>"

text \<open>A clock for the samples: every date parses to time 0 and a day has 86400000 ms.\<close>

definition epoch :: "string \<Rightarrow> int option" where
  "epoch s = Some 0"

definition days :: "int \<Rightarrow> int" where
  "days n = n * 86400000"

text \<open>
  Notions used to state the properties of the compatibility report: the report returned when
  there is nothing to check, the remediation command of one peer, and the combined command
  that names every failing peer.
\<close>

definition empty_report :: "string \<Rightarrow> CompatibilityReport" where
  "empty_report pkgName =
     \<lparr>CompatibilityReport.packageName = pkgName, checks = [], compatible = True\<rparr>"

definition individual_fix :: "PeerCheck \<Rightarrow> string" where
  "individual_fix c = ''npm install '' @ fixPart (PeerCheck.name c) (required c)"

definition combined_fix :: "PeerCheck list \<Rightarrow> string" where
  "combined_fix cs =
     ''npm install '' @
     join '' '' (map (\<lambda>c. fixPart (PeerCheck.name c) (required c)) (filter failing cs))"



text \<open>
  When does the metadata fetch fail: the request is rejected, the response is not ok, its
  body is not JSON, or the JSON lacks the latest tag or the version it names.
\<close>

definition fetch_fails :: "NpmRegistryResponse fetch_result \<Rightarrow> bool" where
  "fetch_fails res =
     (case res of
        Rejected \<Rightarrow> True
      | Resolved ok body \<Rightarrow>
          \<not> ok \<or> (case body of None \<Rightarrow> True | Some d \<Rightarrow> peers_of_response d = None))"

text \<open>
  A security report is consistent when its flag says whether a CRITICAL vulnerability is
  in its list. The cache directories that runs of \<open>checkSecurity\<close> can produce, starting
  from an empty directory, are the reachable ones.
\<close>

definition consistent :: "SecurityReport \<Rightarrow> bool" where
  "consistent r \<longleftrightarrow>
     (hasCritical r \<longleftrightarrow> (\<exists>v\<in>set (vulnerabilities r). severity v = CRITICAL))"

definition cache_consistent :: "SecurityReport cache_dir \<Rightarrow> bool" where
  "cache_consistent dir \<longleftrightarrow>
     (\<forall>key entry. dir key = Some entry \<longrightarrow> consistent (data entry))"

definition empty_security_report :: "string \<Rightarrow> SecurityReport" where
  "empty_security_report pkgName =
     \<lparr>SecurityReport.packageName = pkgName, vulnerabilities = [], hasCritical = False\<rparr>"

inductive security_cache_reachable :: "SecurityReport cache_dir \<Rightarrow> bool" where
  fresh: "security_cache_reachable Map.empty"
| after_check:
    "security_cache_reachable dir \<Longrightarrow>
     checkSecurity io osv parseFloat dir pkgName ver = Inr (r, dir') \<Longrightarrow>
     security_cache_reachable dir'"

text \<open>
  A sample project: the manifest \<open>/project/package.json\<close> with the given dependencies, a
  registry that answers every request with the given peer requirements at version 1.0.0, a
  filesystem on which every call succeeds, and the semver package with nothing accepted
  outside the modelled fragment.
\<close>

definition no_other_syntax :: "string \<Rightarrow> Comparator list list option" where
  "no_other_syntax raw = None"

definition sample_io :: fs_outcome where
  "sample_io = \<lparr>mkdir_ok = True, write_ok = True, unlink_ok = True, clock = 1000\<rparr>"

definition sample_response :: "(string \<times> string) list \<Rightarrow> (string \<rightharpoonup> bool option) \<Rightarrow> NpmRegistryResponse" where
  "sample_response ps m =
     \<lparr>latest = Some ''1.0.0'',
      versions = Some [''1.0.0'' \<mapsto>
        \<lparr>NpmVersionData.peerDependencies = Some ps, peerDependenciesMeta = Some m\<rparr>]\<rparr>"

definition sample_world ::
  "(string \<rightharpoonup> string) \<Rightarrow> (string \<rightharpoonup> string) option \<Rightarrow> NpmRegistryResponse fetch_result \<Rightarrow> world" where
  "sample_world deps devDeps res =
     \<lparr>fs_access = (\<lambda>p. p = [''project'', ''package.json'']),
      fs_read_json = (\<lambda>p. Inr \<lparr>dependencies = Some deps, devDependencies = devDeps\<rparr>),
      npm_registry = (\<lambda>pkgName. res),
      semver_intersects = semver_package_intersects no_other_syntax,
      fs_io = sample_io\<rparr>"

definition sample_peers :: "(string \<times> string) list \<Rightarrow> (string \<rightharpoonup> bool option) \<Rightarrow> CachedPeers" where
  "sample_peers ps m = \<lparr>peers = ps, meta = m, resolvedVersion = ''1.0.0''\<rparr>"

definition sample_cached :: "CachedPeers \<Rightarrow> CachedPeers cache_dir" where
  "sample_cached pd =
     [''peers:some-pkg'' \<mapsto> \<lparr>data = pd, timestamp = 1000, ttl = DEFAULT_TTL_MS\<rparr>]"

definition sample_check ::
  "string \<Rightarrow> string \<Rightarrow> string option \<Rightarrow> PeerStatus \<Rightarrow> string option \<Rightarrow> PeerCheck" where
  "sample_check n r i st fix =
     \<lparr>PeerCheck.name = n, required = r, installed = i, status = st, fixCommand = fix\<rparr>"

text \<open>
  Scenario A of the specification with three more peers: react is installed at \<open>^17.0.2\<close>
  and required at \<open>^18.0.0\<close>, react-dom is required and missing, typescript is installed in
  a compatible range, and an optional peer is absent.
\<close>

definition scenario_peers :: "(string \<times> string) list" where
  "scenario_peers =
     [(''react'', ''^18.0.0''), (''react-dom'', ''^18.0.0''),
      (''typescript'', ''^5.0.0''), (''some-optional'', ''^1.0.0'')]"

definition scenario_meta :: "string \<rightharpoonup> bool option" where
  "scenario_meta = [''some-optional'' \<mapsto> Some True]"

definition scenario_world :: world where
  "scenario_world =
     sample_world [''react'' \<mapsto> ''^17.0.2'', ''typescript'' \<mapsto> ''^5.4.0''] None
       (Resolved True (Some (sample_response scenario_peers scenario_meta)))"

definition scenario_report :: CompatibilityReport where
  "scenario_report =
     \<lparr>CompatibilityReport.packageName = ''some-pkg'',
      checks =
        [sample_check ''react'' ''^18.0.0'' (Some ''^17.0.2'') INCOMPATIBLE
           (Some (''npm install react@'' @ dquote @ ''^18.0.0'' @ dquote @
                  '' react-dom@'' @ dquote @ ''^18.0.0'' @ dquote)),
         sample_check ''react-dom'' ''^18.0.0'' None MISSING
           (Some (''npm install react-dom@'' @ dquote @ ''^18.0.0'' @ dquote)),
         sample_check ''typescript'' ''^5.0.0'' (Some ''^5.4.0'') COMPATIBLE None,
         sample_check ''some-optional'' ''^1.0.0'' None OPTIONAL_MISSING None],
      compatible = False\<rparr>"

text \<open>A project without dependencies and a target whose only peer is optional.\<close>

definition optional_world :: world where
  "optional_world =
     sample_world Map.empty None
       (Resolved True (Some (sample_response [(''some-optional'', ''^1.0.0'')] scenario_meta)))"

definition optional_report :: CompatibilityReport where
  "optional_report =
     \<lparr>CompatibilityReport.packageName = ''some-pkg'',
      checks = [sample_check ''some-optional'' ''^1.0.0'' None OPTIONAL_MISSING None],
      compatible = True\<rparr>"

text \<open>A manifest that declares react in both \<open>dependencies\<close> and \<open>devDependencies\<close>.\<close>

definition both_world :: world where
  "both_world =
     sample_world [''react'' \<mapsto> ''^17.0.2'', ''lodash'' \<mapsto> ''^4.17.21'']
       (Some [''react'' \<mapsto> ''^18.0.0'']) Rejected"


definition corrupt_world :: world where
  "corrupt_world =
     (sample_world Map.empty None Rejected)\<lparr>fs_read_json := (\<lambda>p. Inl SyntaxError)\<rparr>"

definition readonly_world :: world where
  "readonly_world =
     (sample_world [''react'' \<mapsto> ''^18.0.0''] None
        (Resolved True (Some (sample_response [] Map.empty))))
       \<lparr>fs_io := sample_io\<lparr>mkdir_ok := False\<rparr>\<rparr>"

text \<open>
  A sample OSV answer with one advisory whose CVSS score string parses to 9.8, and a
  \<open>parseFloat\<close> that knows this string.
\<close>

definition sample_osv_vuln :: OsvVuln where
  "sample_osv_vuln =
     \<lparr>osv_id = Some ''GHSA-0001'', osv_summary = None,
      osv_severity = Some [\<lparr>sev_type = Some ''CVSS_V3'', sev_score = Some ''9.8''\<rparr>],
      osv_affected = None, osv_references = None\<rparr>"

definition sample_osv :: "string \<Rightarrow> string \<Rightarrow> OsvResponse fetch_result" where
  "sample_osv pkgName ver = Resolved True (Some \<lparr>vulns = Some [sample_osv_vuln]\<rparr>)"

definition sample_parseFloat :: "string \<Rightarrow> js_number" where
  "sample_parseFloat s = (if s = ''9.8'' then Finite (98 / 10) else NaN)"

definition sample_critical_report :: SecurityReport where
  "sample_critical_report =
     \<lparr>SecurityReport.packageName = ''some-pkg'',
      vulnerabilities =
        [\<lparr>vulnId = ''GHSA-0001'', summary = ''No description available'', severity = CRITICAL,
          affectedVersions = ''unknown'', url = []\<rparr>],
      hasCritical = True\<rparr>"

definition sample_security_cache :: "SecurityReport cache_dir" where
  "sample_security_cache =
     [''security:some-pkg@1.0.0'' \<mapsto>
        \<lparr>data = sample_critical_report, timestamp = 1000, ttl = SECURITY_CACHE_TTL_MS\<rparr>]"

section \<open>Properties of the scoring engine\<close>

lemmas scoring_constants =
  WEIGHT_COMPATIBILITY_def WEIGHT_SECURITY_def WEIGHT_DEPRECATION_def WEIGHT_MAINTENANCE_def
  THRESHOLD_ALLOW_def THRESHOLD_WARN_def

lemma Math_round_of_int: "Math_round (rat_of_int n) = n"
  unfolding Math_round_def by (intro floor_unique) simp_all

lemma Math_round_mono: "x \<le> y \<Longrightarrow> Math_round x \<le> Math_round y"
  by (simp add: Math_round_def floor_mono)

lemma round_ties_even_floor: "\<lfloor>q\<rfloor> \<le> round_ties_even q \<and> round_ties_even q \<le> \<lfloor>q\<rfloor> + 1"
  by (simp add: round_ties_even_def Let_def)

lemma round_ties_even_of_int: "round_ties_even (of_int m) = m"
  by (simp add: round_ties_even_def Let_def)

lemma round_ties_even_le:
  assumes "q \<le> of_int m"
  shows "round_ties_even q \<le> m"
proof (cases "q = of_int m")
  case True
  then show ?thesis by (simp add: round_ties_even_of_int)
next
  case False
  with assms have "q < of_int m" by simp
  then have "\<lfloor>q\<rfloor> < m" by (simp add: floor_less_iff)
  with round_ties_even_floor[of q] show ?thesis by linarith
qed

lemma round_ties_even_ge:
  assumes "of_int m \<le> q"
  shows "m \<le> round_ties_even q"
proof -
  from assms have "m \<le> \<lfloor>q\<rfloor>" by (simp add: le_floor_iff)
  with round_ties_even_floor[of q] show ?thesis by linarith
qed

lemma exponent_bounds:
  assumes "0 < x"
  shows "2 powi exponent x \<le> x \<and> x < 2 powi (exponent x + 1)"
proof -
  obtain p q where pq: "quotient_of x = (p, q)" by (cases "quotient_of x")
  then have q: "0 < q" by (rule quotient_of_denom_pos)
  from pq have x: "x = of_int p / of_int q" by (rule quotient_of_div)
  with assms q have p: "0 < p" by (simp add: zero_less_divide_iff)
  define n where "n = bitlen p - bitlen q"
  have bits: "(2::rat) powi (bitlen k - 1) \<le> of_int k \<and> of_int k < (2::rat) powi bitlen k"
    if k: "0 < k" for k
  proof -
    from bitlen_bounds[OF k] have b: "2 ^ nat (bitlen k - 1) \<le> k" "k < 2 ^ nat (bitlen k)"
      by simp_all
    have pos: "0 < bitlen k" using k bitlen_eq_zero_iff[of k] bitlen_nonneg[of k] by linarith
    have "(2::rat) powi (bitlen k - 1) = of_int (2 ^ nat (bitlen k - 1))"
      using pos by (simp add: power_int_def)
    moreover have "(2::rat) powi bitlen k = of_int (2 ^ nat (bitlen k))"
      using pos by (simp add: power_int_def)
    ultimately show ?thesis using b by (simp only: of_int_le_iff of_int_less_iff) 
  qed
  note P = bits[OF p] and Q = bits[OF q]
  have pow_pos: "0 < (2::rat) powi k" for k by simp
  have "(2::rat) powi (bitlen p - 1) / 2 powi bitlen q < of_int p / of_int q"
    using pow_pos P Q q by (intro frac_less2) simp_all
  also have "(2::rat) powi (bitlen p - 1) / 2 powi bitlen q = 2 powi (n - 1)"
    by (simp add: n_def power_int_diff[symmetric] algebra_simps)
  finally have lo: "(2::rat) powi (n - 1) < x" unfolding x .
  have "of_int p / of_int q < (2::rat) powi bitlen p / 2 powi (bitlen q - 1)"
    using pow_pos P Q p by (intro frac_less) simp_all
  also have "(2::rat) powi bitlen p / 2 powi (bitlen q - 1) = 2 powi (n + 1)"
    by (simp add: n_def power_int_diff[symmetric] algebra_simps)
  finally have hi: "x < (2::rat) powi (n + 1)" unfolding x .
  show ?thesis
    using lo hi unfolding exponent_def pq n_def[symmetric] fst_conv snd_conv Let_def
    by auto
qed

lemma exponent_less:
  assumes "0 < x" "x < 2 powi k"
  shows "exponent x < k"
proof (rule ccontr)
  assume "\<not> exponent x < k"
  then have "(2::rat) powi k \<le> 2 powi exponent x" by (intro power_int_increasing) simp_all
  with exponent_bounds[OF assms(1)] assms(2) show False by linarith
qed

lemma exponent_ge:
  assumes "0 < x" "2 powi k \<le> x"
  shows "k \<le> exponent x"
proof (rule ccontr)
  assume "\<not> k \<le> exponent x"
  then have "(2::rat) powi (exponent x + 1) \<le> 2 powi k" by (intro power_int_increasing) simp_all
  with exponent_bounds[OF assms(1)] assms(2) show False by linarith
qed

lemma binary64_0: "binary64 0 = 0"
  by (simp add: binary64_def)

lemma binary64_pos_bounds:
  assumes "0 < x"
  shows "2 powi exponent x \<le> binary64 x \<and> binary64 x \<le> 2 powi (exponent x + 1)"
proof -
  define e where "e = exponent x"
  define ulp :: rat where "ulp = 2 powi (e - 52)"
  have ulp: "0 < ulp" by (simp add: ulp_def)
  have d: "binary64 x = of_int (round_ties_even (x / ulp)) * ulp"
    using assms by (simp add: binary64_def e_def ulp_def Let_def)
  from exponent_bounds[OF assms] have b: "2 powi e \<le> x" "x < 2 powi (e + 1)"
    by (simp_all add: e_def)
  have lo_eq: "(2::rat) powi e = of_int (2 ^ 52) * ulp"
    by (simp add: ulp_def power_int_diff)
  have hi_eq: "(2::rat) powi (e + 1) = of_int (2 ^ 53) * ulp"
    by (simp add: ulp_def power_int_diff power_int_add)
  have "of_int (2 ^ 52) \<le> x / ulp"
    using b(1) ulp unfolding lo_eq by (simp add: pos_le_divide_eq)
  then have "2 ^ 52 \<le> round_ties_even (x / ulp)" by (rule round_ties_even_ge)
  then have "(of_int (2 ^ 52) :: rat) \<le> of_int (round_ties_even (x / ulp))"
    by (simp only: of_int_le_iff)
  then have lo: "2 powi e \<le> binary64 x"
    unfolding d lo_eq using ulp by (intro mult_right_mono) simp_all
  have "x / ulp \<le> of_int (2 ^ 53)"
    using b(2) ulp unfolding hi_eq by (simp add: pos_divide_le_eq)
  then have "round_ties_even (x / ulp) \<le> 2 ^ 53" by (rule round_ties_even_le)
  then have "(of_int (round_ties_even (x / ulp)) :: rat) \<le> of_int (2 ^ 53)"
    by (simp only: of_int_le_iff)
  then have hi: "binary64 x \<le> 2 powi (e + 1)"
    unfolding d hi_eq using ulp by (intro mult_right_mono) simp_all
  from lo hi show ?thesis by (simp add: e_def)
qed

lemma binary64_nonneg: "0 \<le> x \<Longrightarrow> 0 \<le> binary64 x"
proof (cases "x = 0")
  case True
  then show ?thesis by (simp add: binary64_0)
next
  case False
  assume "0 \<le> x"
  with False have "0 < x" by simp
  from binary64_pos_bounds[OF this] have "2 powi exponent x \<le> binary64 x" ..
  moreover have "0 < (2::rat) powi exponent x" by simp
  ultimately show ?thesis by linarith
qed

lemma binary64_le_of_int:
  assumes "0 \<le> x" "x \<le> of_int m" "x < 2 ^ 53"
  shows "binary64 x \<le> of_int m"
proof (cases "x = 0")
  case True
  with assms show ?thesis by (simp add: binary64_0)
next
  case False
  with assms have pos: "0 < x" by simp
  define e where "e = exponent x"
  define ulp :: rat where "ulp = 2 powi (e - 52)"
  have ulp: "0 < ulp" by (simp add: ulp_def)
  have d: "binary64 x = of_int (round_ties_even (x / ulp)) * ulp"
    using pos by (simp add: binary64_def e_def ulp_def Let_def)
  have "x < 2 powi 53" using assms(3) by (simp add: power_int_def)
  from exponent_less[OF pos this] have e: "e \<le> 52" by (simp add: e_def)
  define k :: int where "k = 2 ^ nat (52 - e)"
  have inv: "1 / ulp = of_int k"
    using e by (simp add: ulp_def k_def power_int_def field_simps)
  have unit: "of_int k * ulp = 1"
    using ulp by (simp add: inv[symmetric])
  have "x / ulp \<le> of_int m / ulp" using assms(2) ulp by (simp add: divide_right_mono)
  also have "of_int m / ulp = of_int m * (1 / ulp)" by simp
  also have "\<dots> = of_int (m * k)" by (simp add: inv)
  finally have "round_ties_even (x / ulp) \<le> m * k" by (rule round_ties_even_le)
  then have "(of_int (round_ties_even (x / ulp)) :: rat) \<le> of_int (m * k)"
    by (simp only: of_int_le_iff)
  then have "binary64 x \<le> of_int (m * k) * ulp"
    unfolding d using ulp by (intro mult_right_mono) simp_all
  also have "of_int (m * k) * ulp = of_int m * (of_int k * ulp)" by simp
  also have "\<dots> = of_int m" by (simp add: unit)
  finally show ?thesis .
qed

lemma binary64_ge_one:
  assumes "1 \<le> x"
  shows "1 \<le> binary64 x"
proof -
  from assms have pos: "0 < x" by simp
  have "(2::rat) powi 0 \<le> x" using assms by simp
  from exponent_ge[OF pos this] have "(2::rat) powi 0 \<le> 2 powi exponent x"
    by (intro power_int_increasing) simp_all
  with binary64_pos_bounds[OF pos] show ?thesis by simp
qed



lemma round_ties_even_error: "\<bar>of_int (round_ties_even q) - q\<bar> \<le> 1 / 2"
proof -
  have "0 \<le> q - of_int \<lfloor>q\<rfloor>" "q - of_int \<lfloor>q\<rfloor> < 1" by linarith+
  then show ?thesis by (auto simp: round_ties_even_def Let_def abs_le_iff)
qed

lemma binary64_error:
  assumes "0 < x"
  shows "\<bar>binary64 x - x\<bar> \<le> x / 2 ^ 53"
proof -
  define e where "e = exponent x"
  define ulp :: rat where "ulp = 2 powi (e - 52)"
  have ulp: "0 < ulp" by (simp add: ulp_def)
  have d: "binary64 x = of_int (round_ties_even (x / ulp)) * ulp"
    using assms by (simp add: binary64_def e_def ulp_def Let_def)
  have "binary64 x - x = (of_int (round_ties_even (x / ulp)) - x / ulp) * ulp"
    using ulp by (simp add: d field_simps)
  then have "\<bar>binary64 x - x\<bar> = \<bar>of_int (round_ties_even (x / ulp)) - x / ulp\<bar> * ulp"
    using ulp by (simp add: abs_mult)
  also have "\<dots> \<le> 1 / 2 * ulp"
    using ulp by (intro mult_right_mono round_ties_even_error) simp
  also have "1 / 2 * ulp = 2 powi e / 2 ^ 53"
    by (simp add: ulp_def power_int_diff)
  also have "\<dots> \<le> x / 2 ^ 53"
    using exponent_bounds[OF assms] by (simp add: e_def divide_right_mono)
  finally show ?thesis .
qed

lemma unit_roundoff_small: "0 \<le> unit_roundoff \<and> unit_roundoff \<le> 1 / 1000"
  by (simp add: unit_roundoff_def)

lemma binary64_unit:
  assumes "0 \<le> x" "x \<le> 1"
  shows "0 \<le> binary64 x \<and> binary64 x \<le> 1 \<and> \<bar>binary64 x - x\<bar> \<le> unit_roundoff"
proof -
  have "binary64 x \<le> of_int 1"
    using assms by (intro binary64_le_of_int) simp_all
  moreover have "\<bar>binary64 x - x\<bar> \<le> unit_roundoff"
  proof (cases "x = 0")
    case True
    then show ?thesis using unit_roundoff_small by (simp add: binary64_0)
  next
    case False
    with assms have "0 < x" by simp
    from binary64_error[OF this] have "\<bar>binary64 x - x\<bar> \<le> x / 2 ^ 53" .
    also have "\<dots> \<le> 1 / 2 ^ 53" using assms(2) by (simp add: divide_right_mono)
    finally show ?thesis by (simp only: unit_roundoff_def)
  qed
  ultimately show ?thesis using binary64_nonneg[OF assms(1)] by simp
qed

lemma binary64_weighted:
  assumes "0 \<le> y" "y \<le> 1" "0 \<le> w" "w \<le> 100"
  shows "\<bar>binary64 (of_int w * y) - of_int w * y\<bar> \<le> 100 * unit_roundoff"
proof (cases "of_int w * y = 0")
  case True
  show ?thesis unfolding True binary64_0 using unit_roundoff_small by simp
next
  case False
  have nn: "0 \<le> of_int w * y" using assms by simp
  have pos: "0 < of_int w * y" by (rule le_neq_trans[OF nn False[THEN not_sym]])
  have "of_int w * y \<le> of_int w * 1" using assms by (intro mult_left_mono) simp_all
  also have "(of_int w :: rat) \<le> 100" using assms(4) by simp
  finally have le: "of_int w * y \<le> 100" by simp
  from binary64_error[OF pos]
  have "\<bar>binary64 (of_int w * y) - of_int w * y\<bar> \<le> of_int w * y / 2 ^ 53" .
  also have "\<dots> \<le> 100 / 2 ^ 53" using le by (intro divide_right_mono) simp_all
  finally show ?thesis by (simp only: unit_roundoff_def times_divide_eq_right mult_1_right)
qed

lemma Math_round_near:
  assumes "\<bar>c - of_int n\<bar> < 1 / 2"
  shows "Math_round c = n"
  unfolding Math_round_def
proof (rule floor_unique)
  show "of_int n \<le> c + 1 / 2" using assms by linarith
  show "c + 1 / 2 < of_int n + 1" using assms by linarith
qed

lemma security_score_binary64:
  assumes "k < 30"
  shows "Math_round (binary64 (30 * binary64 (1 - min (binary64 (rat_of_nat k / 30)) 1))) =
           30 - int k"
proof -
  define x where "x = rat_of_nat k / 30"
  define a where "a = binary64 x"
  define b where "b = binary64 (1 - a)"
  define c where "c = binary64 (of_int 30 * b)"
  have x: "0 \<le> x" "x \<le> 1" using assms by (simp_all add: x_def)
  from binary64_unit[OF x] have a: "0 \<le> a" "a \<le> 1" "\<bar>a - x\<bar> \<le> unit_roundoff"
    by (simp_all add: a_def)
  then have "0 \<le> 1 - a" "1 - a \<le> 1" by simp_all
  from binary64_unit[OF this] have b: "0 \<le> b" "b \<le> 1" "\<bar>b - (1 - a)\<bar> \<le> unit_roundoff"
    by (simp_all add: b_def)
  from binary64_weighted[OF b(1,2), of 30] have c: "\<bar>c - 30 * b\<bar> \<le> 100 * unit_roundoff"
    by (simp add: c_def)
  have exact: "rat_of_int (30 - int k) = 30 * (1 - x)" by (simp add: x_def)
  from a(3) have a': "a - x \<le> unit_roundoff" "x - a \<le> unit_roundoff" by linarith+
  from b(3) have b': "b - (1 - a) \<le> unit_roundoff" "(1 - a) - b \<le> unit_roundoff" by linarith+
  from c have c': "c - 30 * b \<le> 100 * unit_roundoff" "30 * b - c \<le> 100 * unit_roundoff" by linarith+
  from unit_roundoff_small have e: "unit_roundoff \<le> 1 / 1000" by simp
  have d: "30 * (1 - x) = 30 - 30 * x" by (simp add: algebra_simps)
  have "c - (30 - 30 * x) < 1 / 2" using a' b' c' e by linarith
  moreover have "(30 - 30 * x) - c < 1 / 2" using a' b' c' e by linarith
  ultimately have "\<bar>c - rat_of_int (30 - int k)\<bar> < 1 / 2"
    unfolding exact d by linarith
  then have "Math_round c = 30 - int k" by (rule Math_round_near)
  moreover have "min a 1 = a" using a(2) by simp
  ultimately show ?thesis by (simp add: c_def b_def a_def x_def)
qed

lemma Math_round_0: "Math_round 0 = 0"
  using Math_round_near[of 0 0] by simp

lemma security_score_binary64_capped:
  assumes "30 \<le> k"
  shows "Math_round (binary64 (30 * binary64 (1 - min (binary64 (rat_of_nat k / 30)) 1))) = 0"
proof -
  have "1 \<le> rat_of_nat k / 30" using assms by simp
  then have "1 \<le> binary64 (rat_of_nat k / 30)" by (rule binary64_ge_one)
  then have "min (binary64 (rat_of_nat k / 30)) 1 = 1" by simp
  then show ?thesis by (simp add: binary64_0 Math_round_0)
qed


lemma security_score:
  "Math_round (binary64 (30 * binary64 (1 - min (binary64 (rat_of_nat k / 30)) 1))) =
     max 0 (30 - int k)"
  using security_score_binary64[of k] security_score_binary64_capped[of k]
  by (cases "k < 30") simp_all

text \<open>
  The rounding of the operations shows in the scores: with 79 of 80 peers failing the
  exact value of \<open>40 \<times> (1 - 79/80)\<close> is one half, which would round to 1, and the computed
  value lies below one half and rounds to 0.
\<close>

lemma binary64_rounding_example:
  "Math_round (binary64 (40 * binary64 (1 - min (binary64 (79 / 80)) 1))) = 0"
  "Math_round (40 * (1 - min (79 / 80) 1)) = 1"
  by code_simp+

lemma weighted_score_range:
  assumes "0 \<le> p" "p \<le> 1" "0 \<le> w" "w \<le> 100"
  shows "0 \<le> Math_round (binary64 (rat_of_int w * binary64 (1 - p))) \<and>
         Math_round (binary64 (rat_of_int w * binary64 (1 - p))) \<le> w"
proof -
  define y where "y = binary64 (1 - p)"
  have "0 \<le> 1 - p" "1 - p \<le> 1" using assms by simp_all
  from binary64_unit[OF this] have y: "0 \<le> y" "y \<le> 1" by (simp_all add: y_def)
  have nn: "0 \<le> rat_of_int w * y" using assms(3) y(1) by simp
  have "rat_of_int w * y \<le> rat_of_int w * 1" using assms(3) y by (intro mult_left_mono) simp_all
  then have le: "rat_of_int w * y \<le> rat_of_int w" by simp
  have "rat_of_int w \<le> 100" using assms(4) by simp
  with le have small: "rat_of_int w * y < 2 ^ 53" by simp
  have "rat_of_int 0 \<le> binary64 (rat_of_int w * y)" using binary64_nonneg[OF nn] by simp
  from Math_round_mono[OF this] have a: "0 \<le> Math_round (binary64 (rat_of_int w * y))"
    by (simp only: Math_round_of_int)
  from Math_round_mono[OF binary64_le_of_int[OF nn le small]]
  have b: "Math_round (binary64 (rat_of_int w * y)) \<le> w"
    by (simp only: Math_round_of_int)
  from a b show ?thesis unfolding y_def ..
qed

lemma scoreCompatibility_empty:
  "checks r = [] \<Longrightarrow> RiskFactor.score (scoreCompatibility r) = 40"
  by (simp add: scoreCompatibility_def scoring_constants)

lemma scoreCompatibility_range:
  "0 \<le> RiskFactor.score (scoreCompatibility r) \<and> RiskFactor.score (scoreCompatibility r) \<le> 40"
proof (cases "checks r = []")
  case True
  then show ?thesis by (simp add: scoreCompatibility_empty)
next
  case False
  define p where
    "p = min (binary64 (rat_of_nat (length (filter (\<lambda>c. status c = MISSING) (checks r)) +
                length (filter (\<lambda>c. status c = INCOMPATIBLE) (checks r))) /
              rat_of_nat (length (checks r)))) 1"
  have "0 \<le> binary64 (rat_of_nat (length (filter (\<lambda>c. status c = MISSING) (checks r)) +
                length (filter (\<lambda>c. status c = INCOMPATIBLE) (checks r))) /
              rat_of_nat (length (checks r)))"
    by (intro binary64_nonneg) simp
  then have p0: "0 \<le> p" unfolding p_def by simp
  have p1: "p \<le> 1" unfolding p_def by simp
  have sc: "RiskFactor.score (scoreCompatibility r) =
      Math_round (binary64 (rat_of_int 40 * binary64 (1 - p)))"
    using False by (simp add: scoreCompatibility_def scoring_constants Let_def p_def)
  show ?thesis unfolding sc using weighted_score_range[OF p0 p1, of 40] by simp
qed

lemma scoreSecurity_empty:
  "vulnerabilities r = [] \<Longrightarrow> RiskFactor.score (scoreSecurity r) = 30"
  by (simp add: scoreSecurity_def scoring_constants)

lemma security_factor_spec_closed:
  "security_factor_spec c h m = max 0 (30 - int (15 * c + 8 * h + 3 * m))"
proof -
  define k where "k = 15 * c + 8 * h + 3 * m"
  show ?thesis
  proof (cases "k \<ge> 30")
    case True
    then have "min 1 (rat_of_nat k / 30) = 1" by simp
    then have "security_factor_spec c h m = Math_round (rat_of_int 0)"
      unfolding security_factor_spec_def k_def[symmetric] by simp
    also have "\<dots> = 0" by (rule Math_round_of_int)
    finally show ?thesis using True unfolding k_def[symmetric] by simp
  next
    case False
    then have "min 1 (rat_of_nat k / 30) = rat_of_nat k / 30" by simp
    then have "security_factor_spec c h m = Math_round (30 * (1 - rat_of_nat k / 30))"
      unfolding security_factor_spec_def k_def[symmetric] by simp
    also have "30 * (1 - rat_of_nat k / 30) = rat_of_int (30 - int k)"
      by (simp add: algebra_simps)
    also have "Math_round (rat_of_int (30 - int k)) = 30 - int k"
      by (rule Math_round_of_int)
    finally show ?thesis using False unfolding k_def[symmetric] by simp
  qed
qed

lemma scoreSecurity_closed:
  "RiskFactor.score (scoreSecurity r) =
     max 0 (30 - int (15 * count_severity CRITICAL (vulnerabilities r) +
       8 * count_severity HIGH (vulnerabilities r) +
       3 * count_severity MODERATE (vulnerabilities r)))"
proof (cases "vulnerabilities r = []")
  case True
  then show ?thesis by (simp add: scoreSecurity_empty count_severity_def)
next
  case False
  define k where "k = 15 * count_severity CRITICAL (vulnerabilities r) +
       8 * count_severity HIGH (vulnerabilities r) +
       3 * count_severity MODERATE (vulnerabilities r)"
  have "RiskFactor.score (scoreSecurity r) =
      Math_round (binary64 (30 * binary64 (1 - min (binary64 (rat_of_nat k / 30)) 1)))"
    using False
    by (simp add: scoreSecurity_def count_severity_def scoring_constants Let_def k_def
          mult.commute)
  then show ?thesis unfolding security_score k_def .
qed

lemma scoreSecurity_nonempty:
  assumes "vulnerabilities r \<noteq> []"
  shows "RiskFactor.score (scoreSecurity r) =
           security_factor_spec (count_severity CRITICAL (vulnerabilities r))
             (count_severity HIGH (vulnerabilities r))
             (count_severity MODERATE (vulnerabilities r))"
  by (simp only: scoreSecurity_closed security_factor_spec_closed)

lemma scoreSecurity_range:
  "0 \<le> RiskFactor.score (scoreSecurity r) \<and> RiskFactor.score (scoreSecurity r) \<le> 30"
  by (simp add: scoreSecurity_closed)

lemma count_severity_filter_LOW:
  "sv \<noteq> LOW \<Longrightarrow>
     count_severity sv (filter (\<lambda>v. severity v \<noteq> LOW) vs) = count_severity sv vs"
  by (induction vs) (auto simp: count_severity_def)

lemma scoreDeprecation_range:
  "0 \<le> RiskFactor.score (scoreDeprecation i) \<and> RiskFactor.score (scoreDeprecation i) \<le> 15"
  by (simp add: scoreDeprecation_def scoring_constants split: option.splits)

lemma scoreDeprecation_deprecated:
  "deprecated i = Some msg \<Longrightarrow> RiskFactor.score (scoreDeprecation (Some i)) = 0"
  by (simp add: scoreDeprecation_def)

lemma scoreMaintenance_range:
  "0 \<le> RiskFactor.score (scoreMaintenance dp now i) \<and>
   RiskFactor.score (scoreMaintenance dp now i) \<le> 15"
  by (simp add: scoreMaintenance_def scoring_constants Let_def
        split: option.splits prod.splits if_splits)

lemma calculateRiskScore_score:
  "RiskScore.score (calculateRiskScore dp now c s i) =
     RiskFactor.score (scoreCompatibility c) + RiskFactor.score (scoreSecurity s) +
     RiskFactor.score (scoreDeprecation i) + RiskFactor.score (scoreMaintenance dp now i)"
  by (simp add: calculateRiskScore_def Let_def)

lemma calculateRiskScore_action:
  "action (calculateRiskScore dp now c s i) =
     (if RiskScore.score (calculateRiskScore dp now c s i) > 75 then ALLOW
      else if RiskScore.score (calculateRiskScore dp now c s i) > 40 then WARN else BLOCK)"
  by (simp add: calculateRiskScore_def Let_def scoring_constants)

lemma calculateRiskScore_factors:
  "factors (calculateRiskScore dp now c s i) =
     [scoreCompatibility c, scoreSecurity s, scoreDeprecation i, scoreMaintenance dp now i]"
  by (simp add: calculateRiskScore_def Let_def)

lemma binary64_of_int:
  assumes "0 \<le> n" "n < 2 ^ 53"
  shows "binary64 (rat_of_int n) = rat_of_int n"
proof (cases "n = 0")
  case True
  then show ?thesis by (simp add: binary64_0)
next
  case False
  with assms have pos: "0 < rat_of_int n" by simp
  define e where "e = exponent (rat_of_int n)"
  define ulp :: rat where "ulp = 2 powi (e - 52)"
  have ulp: "0 < ulp" by (simp add: ulp_def)
  have d: "binary64 (rat_of_int n) = of_int (round_ties_even (rat_of_int n / ulp)) * ulp"
    using pos by (simp add: binary64_def e_def ulp_def Let_def)
  have "rat_of_int n < rat_of_int (2 ^ 53)" using assms(2) by (simp only: of_int_less_iff)
  then have "rat_of_int n < 2 powi 53" by (simp add: power_int_def)
  from exponent_less[OF pos this] have e: "e \<le> 52" by (simp add: e_def)
  define k :: int where "k = 2 ^ nat (52 - e)"
  have inv: "1 / ulp = of_int k"
    using e by (simp add: ulp_def k_def power_int_def field_simps)
  have unit: "of_int k * ulp = 1"
    using ulp by (simp add: inv[symmetric])
  have "rat_of_int n / ulp = rat_of_int n * (1 / ulp)" by simp
  also have "\<dots> = of_int (n * k)" by (simp add: inv)
  finally have "round_ties_even (rat_of_int n / ulp) = n * k"
    by (simp only: round_ties_even_of_int)
  then have "binary64 (rat_of_int n) = of_int (n * k) * ulp" by (simp only: d)
  also have "\<dots> = rat_of_int n * (of_int k * ulp)" by simp
  also have "\<dots> = rat_of_int n" by (simp add: unit)
  finally show ?thesis .
qed

lemma sample_days:
  assumes "0 \<le> n" "n \<le> 10000"
  shows "\<lfloor>binary64 (binary64 (rat_of_int (days n) - rat_of_int 0) /
            rat_of_int (1000 * 60 * 60 * 24))\<rfloor> = n"
proof -
  have "binary64 (rat_of_int (days n) - rat_of_int 0) = rat_of_int (days n)"
    using assms binary64_of_int[of "days n"] by (simp add: days_def)
  moreover have "rat_of_int (days n) / rat_of_int (1000 * 60 * 60 * 24) = rat_of_int n"
    by (simp add: days_def)
  moreover have "binary64 (rat_of_int n) = rat_of_int n"
    using assms by (intro binary64_of_int) simp_all
  ultimately show ?thesis by simp
qed

lemma sample_maintenance:
  assumes "0 \<le> n" "n \<le> 10000"
  shows "RiskFactor.score (scoreMaintenance epoch (days n) (Some (sample_info dep k))) =
     max (15 - (if n > 730 then 10 else if n > 365 then 5 else 0) -
          (if k = 0 then 5 else if k = 1 then 2 else 0)) 0"
  using sample_days[OF assms]
  by (simp add: scoreMaintenance_def sample_info_def epoch_def scoring_constants Let_def)

lemma sample_info_deprecated: "deprecated (sample_info dep k) = dep"
  by (simp add: sample_info_def)

lemma sample_deprecation:
  "RiskFactor.score (scoreDeprecation (Some (sample_info (Some msg) k))) = 0"
  by (simp add: scoreDeprecation_deprecated sample_info_deprecated)

subsection \<open>The total score and the action thresholds\<close>

text \<open>
  Claim C4. For every input, \<open>calculateRiskScore\<close> returns the four factors, a score that
  is their sum and lies between 0 and 100, and the action given by the strict thresholds:
  ALLOW above 75, WARN above 40 and up to 75, BLOCK up to 40. In particular a total of
  exactly 75 is WARN and a total of exactly 40 is BLOCK.
\<close>
theorem calculateRiskScore_sum_range_thresholds:
  "factors (calculateRiskScore dp now c s i) =
     [scoreCompatibility c, scoreSecurity s, scoreDeprecation i, scoreMaintenance dp now i] \<and>
   RiskScore.score (calculateRiskScore dp now c s i) =
     sum_list (map RiskFactor.score (factors (calculateRiskScore dp now c s i))) \<and>
   0 \<le> RiskScore.score (calculateRiskScore dp now c s i) \<and>
   RiskScore.score (calculateRiskScore dp now c s i) \<le> 100 \<and>
   (action (calculateRiskScore dp now c s i) = ALLOW \<longleftrightarrow>
      RiskScore.score (calculateRiskScore dp now c s i) > 75) \<and>
   (action (calculateRiskScore dp now c s i) = WARN \<longleftrightarrow>
      40 < RiskScore.score (calculateRiskScore dp now c s i) \<and>
      RiskScore.score (calculateRiskScore dp now c s i) \<le> 75) \<and>
   (action (calculateRiskScore dp now c s i) = BLOCK \<longleftrightarrow>
      RiskScore.score (calculateRiskScore dp now c s i) \<le> 40) \<and>
   (RiskScore.score (calculateRiskScore dp now c s i) = 75 \<longrightarrow>
      action (calculateRiskScore dp now c s i) = WARN) \<and>
   (RiskScore.score (calculateRiskScore dp now c s i) = 40 \<longrightarrow>
      action (calculateRiskScore dp now c s i) = BLOCK)"
  using scoreCompatibility_range[of c] scoreSecurity_range[of s] scoreDeprecation_range[of i]
    scoreMaintenance_range[of dp now i]
  by (simp add: calculateRiskScore_factors calculateRiskScore_score calculateRiskScore_action)

text \<open>Both boundary totals are reached: 40 + 30 + 0 + 5 and 40 + 0 + 0 + 0.\<close>

lemma sample_score_75:
  "RiskScore.score (calculateRiskScore epoch (days 800) no_peers (sample_security [])
     (Some (sample_info (Some ''use X instead'') 3))) = 75"
  by (simp add: calculateRiskScore_score scoreCompatibility_empty scoreSecurity_empty
        sample_deprecation sample_maintenance no_peers_def sample_security_def)

lemma sample_score_40:
  "RiskScore.score (calculateRiskScore epoch (days 800) no_peers
     (sample_security [sample_vuln CRITICAL, sample_vuln CRITICAL])
     (Some (sample_info (Some ''use X instead'') 0))) = 40"
  by (simp add: calculateRiskScore_score scoreCompatibility_empty scoreSecurity_closed
        sample_deprecation sample_maintenance no_peers_def sample_security_def
        sample_vuln_def count_severity_def)

text \<open>
  Witness for C4: the theorem at the two sample inputs, whose totals are exactly 75 and
  exactly 40.
\<close>

theorem calculateRiskScore_sum_range_thresholds_witness:
  "RiskScore.score (calculateRiskScore epoch (days 800) no_peers (sample_security [])
     (Some (sample_info (Some ''use X instead'') 3))) = 75 \<and>
   action (calculateRiskScore epoch (days 800) no_peers (sample_security [])
     (Some (sample_info (Some ''use X instead'') 3))) = WARN \<and>
   RiskScore.score (calculateRiskScore epoch (days 800) no_peers
     (sample_security [sample_vuln CRITICAL, sample_vuln CRITICAL])
     (Some (sample_info (Some ''use X instead'') 0))) = 40 \<and>
   action (calculateRiskScore epoch (days 800) no_peers
     (sample_security [sample_vuln CRITICAL, sample_vuln CRITICAL])
     (Some (sample_info (Some ''use X instead'') 0))) = BLOCK"
  using
    calculateRiskScore_sum_range_thresholds[of epoch "days 800" no_peers "sample_security []"
      "Some (sample_info (Some ''use X instead'') 3)"]
    calculateRiskScore_sum_range_thresholds[of epoch "days 800" no_peers
      "sample_security [sample_vuln CRITICAL, sample_vuln CRITICAL]"
      "Some (sample_info (Some ''use X instead'') 0)"]
    sample_score_75 sample_score_40
  by simp

subsection \<open>Deprecated packages\<close>

text \<open>
  Claim C2, as stated, says that a deprecated package never gets ALLOW. Counterexample: a
  deprecated package without peer requirements and vulnerabilities, published ten days ago,
  with three maintainers and 50000 weekly downloads scores 40 + 30 + 0 + 15 = 85, and 85 is
  above the ALLOW threshold.
\<close>
theorem deprecated_can_be_allowed:
  "deprecated (sample_info (Some ''use X instead'') 3) = Some ''use X instead'' \<and>
   RiskScore.score (calculateRiskScore epoch (days 10) no_peers (sample_security [])
     (Some (sample_info (Some ''use X instead'') 3))) = 85 \<and>
   action (calculateRiskScore epoch (days 10) no_peers (sample_security [])
     (Some (sample_info (Some ''use X instead'') 3))) = ALLOW"
  by (simp add: calculateRiskScore_action calculateRiskScore_score scoreCompatibility_empty
        scoreSecurity_empty sample_deprecation sample_info_deprecated sample_maintenance
        no_peers_def sample_security_def)

text \<open>
  Claim C2, amended. When the package is deprecated the deprecation factor is 0, so the
  total is the sum of the other three factors and at most 85; the action is ALLOW exactly
  when that sum is above 75.
\<close>

theorem deprecated_score_and_action:
  assumes "deprecated info = Some msg"
  shows "RiskFactor.score (scoreDeprecation (Some info)) = 0 \<and>
         RiskScore.score (calculateRiskScore dp now c s (Some info)) =
           RiskFactor.score (scoreCompatibility c) + RiskFactor.score (scoreSecurity s) +
           RiskFactor.score (scoreMaintenance dp now (Some info)) \<and>
         RiskScore.score (calculateRiskScore dp now c s (Some info)) \<le> 85 \<and>
         (action (calculateRiskScore dp now c s (Some info)) = ALLOW \<longleftrightarrow>
            RiskFactor.score (scoreCompatibility c) + RiskFactor.score (scoreSecurity s) +
            RiskFactor.score (scoreMaintenance dp now (Some info)) > 75)"
  using scoreCompatibility_range[of c] scoreSecurity_range[of s]
    scoreMaintenance_range[of dp now "Some info"] scoreDeprecation_deprecated[OF assms]
  by (simp add: calculateRiskScore_score calculateRiskScore_action)

text \<open>
  Witness for the amended C2: a deprecated package with a single maintainer, published 400
  days ago, scores 40 + 30 + 0 + 8 = 78.
\<close>

theorem deprecated_score_and_action_witness:
  "RiskFactor.score (scoreDeprecation (Some (sample_info (Some ''use X instead'') 1))) = 0 \<and>
   RiskScore.score (calculateRiskScore epoch (days 400) no_peers (sample_security [])
     (Some (sample_info (Some ''use X instead'') 1))) = 78 \<and>
   action (calculateRiskScore epoch (days 400) no_peers (sample_security [])
     (Some (sample_info (Some ''use X instead'') 1))) = ALLOW"
proof -
  have d: "deprecated (sample_info (Some ''use X instead'') 1) = Some ''use X instead''"
    by (rule sample_info_deprecated)
  show ?thesis
    using deprecated_score_and_action[OF d, of epoch "days 400" no_peers "sample_security []"]
    by (simp add: scoreCompatibility_empty scoreSecurity_empty sample_maintenance no_peers_def
          sample_security_def)
qed

subsection \<open>The security factor\<close>

text \<open>
  Claim C7. The security factor is the full weight 30 for an empty vulnerability list;
  otherwise it is the specification's formula on the numbers of CRITICAL, HIGH and MODERATE
  vulnerabilities. LOW vulnerabilities do not count: removing them from the report leaves
  the score unchanged.
\<close>
theorem scoreSecurity_formula:
  "(vulnerabilities r = [] \<longrightarrow> RiskFactor.score (scoreSecurity r) = 30) \<and>
   (vulnerabilities r \<noteq> [] \<longrightarrow>
      RiskFactor.score (scoreSecurity r) =
        security_factor_spec (count_severity CRITICAL (vulnerabilities r))
          (count_severity HIGH (vulnerabilities r))
          (count_severity MODERATE (vulnerabilities r))) \<and>
   RiskFactor.score (scoreSecurity
      (r\<lparr>vulnerabilities := filter (\<lambda>v. severity v \<noteq> LOW) (vulnerabilities r)\<rparr>)) =
     RiskFactor.score (scoreSecurity r)"
proof (intro conjI impI)
  assume "vulnerabilities r = []"
  then show "RiskFactor.score (scoreSecurity r) = 30" by (rule scoreSecurity_empty)
next
  assume "vulnerabilities r \<noteq> []"
  then show "RiskFactor.score (scoreSecurity r) =
        security_factor_spec (count_severity CRITICAL (vulnerabilities r))
          (count_severity HIGH (vulnerabilities r))
          (count_severity MODERATE (vulnerabilities r))"
    by (rule scoreSecurity_nonempty)
next
  show "RiskFactor.score (scoreSecurity
      (r\<lparr>vulnerabilities := filter (\<lambda>v. severity v \<noteq> LOW) (vulnerabilities r)\<rparr>)) =
     RiskFactor.score (scoreSecurity r)"
    by (simp add: scoreSecurity_closed count_severity_filter_LOW)
qed

text \<open>
  Witness for C7: an empty report, a report with one HIGH, one LOW and one MODERATE
  vulnerability (30 - 8 - 3 = 19, with or without the LOW one), and a report of LOW
  vulnerabilities only.
\<close>

theorem scoreSecurity_formula_witness:
  "RiskFactor.score (scoreSecurity (sample_security [])) = 30 \<and>
   RiskFactor.score (scoreSecurity
     (sample_security [sample_vuln HIGH, sample_vuln LOW, sample_vuln MODERATE])) = 19 \<and>
   RiskFactor.score (scoreSecurity (sample_security [sample_vuln HIGH, sample_vuln MODERATE])) = 19 \<and>
   RiskFactor.score (scoreSecurity (sample_security [sample_vuln LOW, sample_vuln LOW])) = 30"
  using scoreSecurity_formula[of "sample_security []"]
    scoreSecurity_formula[of "sample_security [sample_vuln HIGH, sample_vuln LOW, sample_vuln MODERATE]"]
    scoreSecurity_formula[of "sample_security [sample_vuln LOW, sample_vuln LOW]"]
  by (simp add: sample_security_def sample_vuln_def count_severity_def
        security_factor_spec_closed scoreSecurity_empty)


section \<open>Properties of the compatibility checker\<close>

lemma check_peer_Inr:
  assumes "check_peer f m im (n, r) = Inr (c, pushed)"
  shows "PeerCheck.name c = n \<and> required c = r \<and>
         installed c = (case installed_property im n of Own ir \<Rightarrow> Some ir | _ \<Rightarrow> None) \<and>
         (failing c \<longrightarrow> fixCommand c = Some (individual_fix c) \<and> pushed = [fixPart n r]) \<and>
         (\<not> failing c \<longrightarrow> fixCommand c = None \<and> pushed = [])"
  using assms
  by (auto simp: check_peer_def failing_def individual_fix_def Let_def
      split: property.splits sum.splits if_splits)

lemma check_peer_status:
  assumes "check_peer f m im (n, r) = Inr (c, pushed)"
  shows "status c =
     (case installed c of
        None \<Rightarrow> if m n = Some (Some True) then OPTIONAL_MISSING else MISSING
      | Some ir \<Rightarrow> if f ir r = Inr True then COMPATIBLE else INCOMPATIBLE)"
  using assms
  by (auto simp: check_peer_def Let_def
      split: property.splits option.splits sum.splits if_splits bool.splits)





lemma check_peers_Inr:
  assumes "check_peers f m im ps = Inr (cs, fps)"
  shows "map PeerCheck.name cs = map fst ps \<and> map required cs = map snd ps \<and>
         fps = map (\<lambda>c. fixPart (PeerCheck.name c) (required c)) (filter failing cs) \<and>
         (\<forall>c\<in>set cs. (failing c \<longrightarrow> fixCommand c = Some (individual_fix c)) \<and>
                      (\<not> failing c \<longrightarrow> fixCommand c = None))"
  using assms
proof (induction ps arbitrary: cs fps)
  case Nil
  then show ?case by simp
next
  case (Cons p ps)
  obtain n r where p: "p = (n, r)" by (cases p)
  from Cons.prems obtain c pushed cs' fps' where
    c: "check_peer f m im (n, r) = Inr (c, pushed)" and
    rest: "check_peers f m im ps = Inr (cs', fps')" and
    cs: "cs = c # cs'" and fps: "fps = pushed @ fps'"
    by (auto simp: p split: sum.splits prod.splits)
  note ih = Cons.IH[OF rest]
  note cp = check_peer_Inr[OF c]
  show ?case
    using ih cp by (cases "failing c") (auto simp: cs fps p)
qed

lemma check_peers_status:
  assumes "check_peers f m im ps = Inr (cs, fps)"
  shows "\<forall>c\<in>set cs.
           installed c =
             (case installed_property im (PeerCheck.name c) of
                Own ir \<Rightarrow> Some ir | _ \<Rightarrow> None) \<and>
           status c =
             (case installed c of
                None \<Rightarrow> if m (PeerCheck.name c) = Some (Some True) then OPTIONAL_MISSING else MISSING
              | Some ir \<Rightarrow> if f ir (required c) = Inr True then COMPATIBLE else INCOMPATIBLE)"
  using assms
proof (induction ps arbitrary: cs fps)
  case Nil
  then show ?case by simp
next
  case (Cons p ps)
  obtain n r where p: "p = (n, r)" by (cases p)
  from Cons.prems obtain c pushed cs' fps' where
    c: "check_peer f m im (n, r) = Inr (c, pushed)" and
    rest: "check_peers f m im ps = Inr (cs', fps')" and
    cs: "cs = c # cs'"
    by (auto simp: p split: sum.splits prod.splits)
  from check_peer_Inr[OF c] have nm: "PeerCheck.name c = n" "required c = r"
    and inst: "installed c = (case installed_property im n of Own ir \<Rightarrow> Some ir | _ \<Rightarrow> None)"
    by simp_all
  have st: "status c =
     (case installed c of
        None \<Rightarrow> if m (PeerCheck.name c) = Some (Some True) then OPTIONAL_MISSING else MISSING
      | Some ir \<Rightarrow> if f ir (required c) = Inr True then COMPATIBLE else INCOMPATIBLE)"
    unfolding nm by (rule check_peer_status[OF c])
  have "installed c =
      (case installed_property im (PeerCheck.name c) of Own ir \<Rightarrow> Some ir | _ \<Rightarrow> None)"
    unfolding nm by (rule inst)
  with st Cons.IH[OF rest]
  show ?case unfolding cs by simp
qed

lemma attach_length: "length (attach_to_first_failing x cs) = length cs"
  by (induction cs) auto



lemma attach_ball:
  "(\<forall>c\<in>set (attach_to_first_failing x cs).
      Q (PeerCheck.name c) (required c) (installed c) (status c)) =
   (\<forall>c\<in>set cs. Q (PeerCheck.name c) (required c) (installed c) (status c))"
  by (induction cs) auto

lemma attach_optional:
  "c \<in> set (attach_to_first_failing x cs) \<Longrightarrow> \<not> failing c \<Longrightarrow> c \<in> set cs"
  by (induction cs) (auto simp: failing_def split: if_splits)

lemma attach_fixParts:
  "map (\<lambda>c. fixPart (PeerCheck.name c) (required c))
     (filter failing (attach_to_first_failing x cs)) =
   map (\<lambda>c. fixPart (PeerCheck.name c) (required c)) (filter failing cs)"
  by (induction cs) (auto simp: failing_def)

lemma attach_first:
  assumes "\<exists>c\<in>set cs. failing c"
  shows "\<exists>i<length cs. failing (cs ! i) \<and> (\<forall>j<i. \<not> failing (cs ! j)) \<and>
           attach_to_first_failing x cs = cs[i := (cs ! i)\<lparr>fixCommand := Some x\<rparr>]"
  using assms
proof (induction cs)
  case Nil
  then show ?case by simp
next
  case (Cons c cs)
  show ?case
  proof (cases "failing c")
    case True
    then have "attach_to_first_failing x (c # cs) =
        (c # cs)[0 := ((c # cs) ! 0)\<lparr>fixCommand := Some x\<rparr>]"
      by (simp add: failing_def)
    with True show ?thesis by (intro exI[of _ 0]) simp
  next
    case False
    with Cons.prems have "\<exists>c\<in>set cs. failing c" by auto
    from Cons.IH[OF this] obtain i where i: "i < length cs" "failing (cs ! i)"
      "\<forall>j<i. \<not> failing (cs ! j)"
      "attach_to_first_failing x cs = cs[i := (cs ! i)\<lparr>fixCommand := Some x\<rparr>]" by blast
    have "\<forall>j<Suc i. \<not> failing ((c # cs) ! j)"
      using i(3) False by (auto simp: less_Suc_eq_0_disj)
    moreover have "attach_to_first_failing x (c # cs) =
        (c # cs)[Suc i := ((c # cs) ! Suc i)\<lparr>fixCommand := Some x\<rparr>]"
      using False i(4) by (simp add: failing_def)
    ultimately show ?thesis using i(1,2) by (intro exI[of _ "Suc i"]) simp
  qed
qed

lemma length_join:
  "length (join sep xs) = sum_list (map length xs) + (length xs - 1) * length sep"
  by (induction sep xs rule: join.induct) auto

lemma join_longer:
  assumes "x \<in> set xs" "2 \<le> length xs"
  shows "length x < length (join '' '' xs)"
proof -
  have "length x \<le> sum_list (map length xs)"
    using assms(1) by (simp add: member_le_sum_list)
  moreover have "1 \<le> (length xs - 1) * length '' ''" using assms(2) by simp
  ultimately show ?thesis unfolding length_join by linarith
qed

lemma two_in_filter:
  assumes "i < length xs" "j < length xs" "i \<noteq> j" "P (xs ! i)" "P (xs ! j)"
  shows "2 \<le> length (filter P xs)"
proof -
  have "{i, j} \<subseteq> {k. k < length xs \<and> P (xs ! k)}" using assms by auto
  then have "card {i, j} \<le> card {k. k < length xs \<and> P (xs ! k)}"
    by (intro card_mono) auto
  then show ?thesis using assms(3) by (simp add: length_filter_conv_card)
qed

lemma individual_differs_from_combined:
  assumes "i < length cs" "j < length cs" "i \<noteq> j" "failing (cs ! i)" "failing (cs ! j)"
  shows "individual_fix (cs ! j) \<noteq> combined_fix cs"
proof -
  let ?parts = "map (\<lambda>c. fixPart (PeerCheck.name c) (required c)) (filter failing cs)"
  have "2 \<le> length ?parts" using two_in_filter[OF assms(1,2,3), of failing] assms(4,5) by simp
  moreover have "fixPart (PeerCheck.name (cs ! j)) (required (cs ! j)) \<in> set ?parts"
    using assms(2,5) by force
  ultimately have
    "length (fixPart (PeerCheck.name (cs ! j)) (required (cs ! j))) < length (join '' '' ?parts)"
    by (intro join_longer)
  then have "length (individual_fix (cs ! j)) < length (combined_fix cs)"
    by (simp add: individual_fix_def combined_fix_def)
  then show ?thesis by auto
qed

text \<open>
  The result of \<open>checkCompatibility\<close> once the manifest is found and read and the peer
  requirements are fetched: the outcome of the loop decides.
\<close>

lemma checkCompatibility_checked:
  assumes "findPackageJson (fs_access w) projectPath 3 = Some p"
      and "getInstalledPackages (fs_read_json w) p = Inr installedMap"
      and "fetchPeerDependencies (fs_io w) (npm_registry w) dir pkgName = Inr (Some pd, dir1)"
      and "peers pd \<noteq> []"
  shows "checkCompatibility w dir pkgName projectPath =
     (case check_peers (semver_intersects w) (meta pd) installedMap (peers pd) of
        Inl e \<Rightarrow> Inl e
      | Inr (checks0, fixParts) \<Rightarrow>
          Inr (\<lparr>CompatibilityReport.packageName = pkgName,
                checks =
                  (if fixParts \<noteq> []
                   then attach_to_first_failing (''npm install '' @ join '' '' fixParts) checks0
                   else checks0),
                compatible =
                  list_all (\<lambda>c. status c = COMPATIBLE \<or> status c = OPTIONAL_MISSING)
                    (if fixParts \<noteq> []
                     then attach_to_first_failing (''npm install '' @ join '' '' fixParts) checks0
                     else checks0)\<rparr>, dir1))"
  using assms
  by (simp add: checkCompatibility_def Let_def del: append.simps split: sum.splits prod.splits)

lemma checkCompatibility_cases:
  assumes "checkCompatibility w dir pkgName projectPath = Inr (rep, dir')"
  shows "rep = empty_report pkgName \<or>
         (\<exists>p installedMap pd checks0 fixParts.
            findPackageJson (fs_access w) projectPath 3 = Some p \<and>
            getInstalledPackages (fs_read_json w) p = Inr installedMap \<and>
            fetchPeerDependencies (fs_io w) (npm_registry w) dir pkgName = Inr (Some pd, dir') \<and>
            peers pd \<noteq> [] \<and>
            check_peers (semver_intersects w) (meta pd) installedMap (peers pd) =
              Inr (checks0, fixParts) \<and>
            checks rep =
              (if fixParts \<noteq> []
               then attach_to_first_failing (''npm install '' @ join '' '' fixParts) checks0
               else checks0) \<and>
            compatible rep =
              list_all (\<lambda>c. status c = COMPATIBLE \<or> status c = OPTIONAL_MISSING) (checks rep))"
proof (cases "findPackageJson (fs_access w) projectPath 3")
  case None
  with assms show ?thesis by (simp add: checkCompatibility_def empty_report_def)
next
  case (Some p)
  show ?thesis
  proof (cases "getInstalledPackages (fs_read_json w) p")
    case (Inl e)
    with assms Some show ?thesis by (simp add: checkCompatibility_def)
  next
    case (Inr installedMap)
    note im = this
    show ?thesis
    proof (cases "fetchPeerDependencies (fs_io w) (npm_registry w) dir pkgName")
      case (Inl e)
      with assms Some im show ?thesis by (simp add: checkCompatibility_def)
    next
      case (Inr res)
      obtain peerData dir1 where res: "res = (peerData, dir1)" by (cases res)
      note fp = Inr[unfolded res]
      show ?thesis
      proof (cases "peerData = None \<or> peers (the peerData) = []")
        case True
        with assms Some im fp show ?thesis
          by (auto simp: checkCompatibility_def empty_report_def)
      next
        case False
        then obtain pd where pd: "peerData = Some pd" "peers pd \<noteq> []" by auto
        note run = checkCompatibility_checked[OF Some im fp[unfolded pd(1)] pd(2)]
        show ?thesis
        proof (cases "check_peers (semver_intersects w) (meta pd) installedMap (peers pd)")
          case (Inl e)
          with assms run show ?thesis by simp
        next
          case (Inr cf)
          obtain checks0 fixParts where cf: "cf = (checks0, fixParts)" by (cases cf)
          note cp = Inr[unfolded cf]
          from assms run cp have
            "rep = \<lparr>CompatibilityReport.packageName = pkgName,
                    checks = (if fixParts \<noteq> []
                       then attach_to_first_failing (''npm install '' @ join '' '' fixParts) checks0
                       else checks0),
                    compatible = list_all (\<lambda>c. status c = COMPATIBLE \<or> status c = OPTIONAL_MISSING)
                      (if fixParts \<noteq> []
                       then attach_to_first_failing (''npm install '' @ join '' '' fixParts) checks0
                       else checks0)\<rparr>" and "dir' = dir1"
            by (simp_all del: append.simps)
          then show ?thesis using Some im fp pd cp by (intro disjI2 exI conjI) simp_all
        qed
      qed
    qed
  qed
qed


subsection \<open>Sample runs\<close>

lemma sample_find:
  "findPackageJson (fs_access (sample_world deps dev res)) [''project'', ''src''] 3 =
     Some [''project'', ''package.json'']"
  by (simp add: sample_world_def numeral_3_eq_3)

lemma sample_find_none:
  "findPackageJson (fs_access (sample_world deps dev res)) [''elsewhere''] 3 = None"
  by (simp add: sample_world_def numeral_3_eq_3)

lemma sample_installed:
  "getInstalledPackages (fs_read_json (sample_world deps dev res)) p =
     Inr (case dev of None \<Rightarrow> deps | Some d \<Rightarrow> deps ++ d)"
  by (simp add: getInstalledPackages_def sample_world_def Object_assign_def split: option.splits)

lemma sample_world_intersects:
  "semver_intersects (sample_world deps dev res) = semver_package_intersects no_other_syntax"
  by (simp add: sample_world_def)

lemma sample_fetch:
  "fetchPeerDependencies
     (fs_io (sample_world deps dev (Resolved True (Some (sample_response ps m)))))
     (npm_registry (sample_world deps dev (Resolved True (Some (sample_response ps m)))))
     Map.empty ''some-pkg'' =
   Inr (Some (sample_peers ps m), sample_cached (sample_peers ps m))"
  by (simp add: fetchPeerDependencies_def sample_world_def sample_io_def cache_get_def
        cache_set_def peers_of_response_def get_property_def sample_response_def
        sample_peers_def sample_cached_def)

lemma sample_fetch_rejected:
  "fetchPeerDependencies (fs_io (sample_world deps dev Rejected))
     (npm_registry (sample_world deps dev Rejected)) Map.empty ''some-pkg'' =
   Inr (None, Map.empty)"
  by (simp add: fetchPeerDependencies_def sample_world_def sample_io_def cache_get_def)

lemma sample_semver:
  "semver_package_intersects ext ''^17.0.2'' ''^18.0.0'' = Inr False"
  "semver_package_intersects ext ''^5.4.0'' ''^5.0.0'' = Inr True"
  "semver_package_intersects ext ''github:facebook/react'' ''^18.0.0'' = Inl TypeError"
  by code_simp+

subsection \<open>Unparseable ranges\<close>

lemma new_Range_error: "new_Range ext s = Inl e \<Longrightarrow> e = TypeError"
  by (auto simp: new_Range_def split: if_splits option.splits)





lemma installed_property_simps:
  "installed_property [''react'' \<mapsto> r] ''react'' = Own r"
  "installed_property [''react'' \<mapsto> r, ''typescript'' \<mapsto> t] ''react'' = Own r"
  "installed_property [''react'' \<mapsto> r, ''typescript'' \<mapsto> t] ''typescript'' = Own t"
  "installed_property [''react'' \<mapsto> r, ''typescript'' \<mapsto> t] ''react-dom'' = Undefined"
  "installed_property [''react'' \<mapsto> r, ''typescript'' \<mapsto> t] ''some-optional'' = Undefined"
  "installed_property Map.empty ''some-optional'' = Undefined"
  "installed_property Map.empty ''constructor'' = Inherited"
  "installed_property [''__proto__'' \<mapsto> r] ''__proto__'' = Inherited"
  by (simp_all add: installed_property_def get_property_def Object_prototype_keys_def)



lemma scenario_run:
  "checkCompatibility scenario_world Map.empty ''some-pkg'' [''project'', ''src''] =
     Inr (scenario_report, sample_cached (sample_peers scenario_peers scenario_meta))"
  unfolding checkCompatibility_def scenario_world_def sample_find sample_installed sample_fetch
    sample_world_intersects
  by (simp add: sample_peers_def check_peer_def sample_semver sample_check_def fixPart_def
        scenario_report_def scenario_peers_def scenario_meta_def installed_property_simps)

lemma optional_run:
  "checkCompatibility optional_world Map.empty ''some-pkg'' [''project'', ''src''] =
     Inr (optional_report,
          sample_cached (sample_peers [(''some-optional'', ''^1.0.0'')] scenario_meta))"
  unfolding checkCompatibility_def optional_world_def sample_find sample_installed sample_fetch
    sample_world_intersects
  by (simp add: sample_peers_def check_peer_def sample_check_def optional_report_def
        scenario_meta_def installed_property_simps)


subsection \<open>The merged installed map\<close>




subsection \<open>The compatible flag\<close>

text \<open>
  Claim C5. In every report returned by \<open>checkCompatibility\<close>, \<open>compatible\<close> is true if and
  only if every check is COMPATIBLE or OPTIONAL_MISSING; a MISSING or INCOMPATIBLE check
  makes it false; and a peer that is absent from the installed map and marked optional is
  OPTIONAL_MISSING, without a remediation command, so that it never makes the flag false.
\<close>

theorem compatible_iff_no_failing_check:
  assumes "checkCompatibility w dir pkgName projectPath = Inr (rep, dir')"
  shows "(compatible rep \<longleftrightarrow>
            (\<forall>c\<in>set (checks rep). status c = COMPATIBLE \<or> status c = OPTIONAL_MISSING)) \<and>
         (\<forall>c\<in>set (checks rep).
            status c = MISSING \<or> status c = INCOMPATIBLE \<longrightarrow> \<not> compatible rep) \<and>
         ((\<forall>c\<in>set (checks rep). status c = OPTIONAL_MISSING) \<longrightarrow> compatible rep) \<and>
         (\<forall>pd. fetchPeerDependencies (fs_io w) (npm_registry w) dir pkgName =
                  Inr (Some pd, dir') \<longrightarrow>
            (\<forall>c\<in>set (checks rep).
               installed c = None \<and> meta pd (PeerCheck.name c) = Some (Some True) \<longrightarrow>
               status c = OPTIONAL_MISSING \<and> fixCommand c = None))"
proof -
  have iff: "compatible rep \<longleftrightarrow>
      (\<forall>c\<in>set (checks rep). status c = COMPATIBLE \<or> status c = OPTIONAL_MISSING)"
    using checkCompatibility_cases[OF assms]
    by (auto simp: empty_report_def list_all_iff)
  have opt: "status c = OPTIONAL_MISSING \<and> fixCommand c = None"
    if fp: "fetchPeerDependencies (fs_io w) (npm_registry w) dir pkgName = Inr (Some pd, dir')"
      and c: "c \<in> set (checks rep)" "installed c = None"
        "meta pd (PeerCheck.name c) = Some (Some True)"
    for pd :: CachedPeers and c
    using checkCompatibility_cases[OF assms]
  proof (elim disjE exE conjE)
    assume "rep = empty_report pkgName"
    with c(1) show ?thesis by (simp add: empty_report_def)
  next
    fix p installedMap and pd' :: CachedPeers and checks0 fixParts
    assume fp': "fetchPeerDependencies (fs_io w) (npm_registry w) dir pkgName =
        Inr (Some pd', dir')"
      and cp: "check_peers (semver_intersects w) (meta pd') installedMap (peers pd') =
        Inr (checks0, fixParts)"
      and ch: "checks rep =
        (if fixParts \<noteq> []
         then attach_to_first_failing (''npm install '' @ join '' '' fixParts) checks0
         else checks0)"
    from fp fp' have same: "pd' = pd" by simp
    have "\<forall>c\<in>set checks0. installed c = None \<and>
            meta pd (PeerCheck.name c) = Some (Some True) \<longrightarrow> status c = OPTIONAL_MISSING"
      using check_peers_status[OF cp] unfolding same by auto
    then have "\<forall>c\<in>set (checks rep). installed c = None \<and>
            meta pd (PeerCheck.name c) = Some (Some True) \<longrightarrow> status c = OPTIONAL_MISSING"
      unfolding ch
      using attach_ball[where Q = "\<lambda>n r i st.
          i = None \<and> meta pd n = Some (Some True) \<longrightarrow> st = OPTIONAL_MISSING"
          and x = "''npm install '' @ join '' '' fixParts" and cs = checks0]
      by (simp del: append.simps)
    with c have st: "status c = OPTIONAL_MISSING" by blast
    then have nf: "\<not> failing c" by (simp add: failing_def)
    have "c \<in> set checks0"
      using c(1) nf unfolding ch by (auto dest: attach_optional split: if_splits)
    with check_peers_Inr[OF cp] nf have "fixCommand c = None" by blast
    with st show ?thesis by simp
  qed
  have "\<forall>pd. fetchPeerDependencies (fs_io w) (npm_registry w) dir pkgName =
                  Inr (Some pd, dir') \<longrightarrow>
            (\<forall>c\<in>set (checks rep).
               installed c = None \<and> meta pd (PeerCheck.name c) = Some (Some True) \<longrightarrow>
               status c = OPTIONAL_MISSING \<and> fixCommand c = None)"
    using opt by blast
  moreover have "\<forall>c\<in>set (checks rep).
            status c = MISSING \<or> status c = INCOMPATIBLE \<longrightarrow> \<not> compatible rep"
    unfolding iff by fastforce
  moreover have "(\<forall>c\<in>set (checks rep). status c = OPTIONAL_MISSING) \<longrightarrow> compatible rep"
    unfolding iff by simp
  ultimately show ?thesis using iff by blast
qed

text \<open>
  Witness for C5: the scenario report has failing checks and is not compatible; the report
  whose only peer is optional and absent is compatible.
\<close>

theorem compatible_iff_no_failing_check_witness:
  "compatible scenario_report = False \<and> compatible optional_report = True \<and>
   status (checks optional_report ! 0) = OPTIONAL_MISSING \<and>
   fixCommand (checks optional_report ! 0) = None"
  using compatible_iff_no_failing_check[OF scenario_run]
    compatible_iff_no_failing_check[OF optional_run]
  by (simp add: scenario_report_def optional_report_def sample_check_def)



subsection \<open>Remediation commands\<close>

text \<open>
  Claim C6. In every report returned by \<open>checkCompatibility\<close>, a check carries a
  \<open>fixCommand\<close> if and only if its status is MISSING or INCOMPATIBLE. When some check
  fails, the first failing check carries the combined command, which names every failing
  peer with its required range, joined by spaces; every other failing check keeps its
  individual command, and that command is not the combined one, so exactly one check
  carries the combined command.
\<close>

theorem fixCommand_iff_failing_and_combined_on_first:
  assumes "checkCompatibility w dir pkgName projectPath = Inr (rep, dir')"
  shows "(\<forall>c\<in>set (checks rep). fixCommand c \<noteq> None \<longleftrightarrow> failing c) \<and>
         ((\<exists>c\<in>set (checks rep). failing c) \<longrightarrow>
            (\<exists>i<length (checks rep).
               failing (checks rep ! i) \<and> (\<forall>j<i. \<not> failing (checks rep ! j)) \<and>
               fixCommand (checks rep ! i) = Some (combined_fix (checks rep)) \<and>
               (\<forall>j<length (checks rep). j \<noteq> i \<and> failing (checks rep ! j) \<longrightarrow>
                  fixCommand (checks rep ! j) = Some (individual_fix (checks rep ! j)) \<and>
                  fixCommand (checks rep ! j) \<noteq> Some (combined_fix (checks rep)))))"
  using checkCompatibility_cases[OF assms]
proof (elim disjE exE conjE)
  assume "rep = empty_report pkgName"
  then show ?thesis by (simp add: empty_report_def)
next
  fix p installedMap and pd :: CachedPeers and checks0 fixParts
  assume cp: "check_peers (semver_intersects w) (meta pd) installedMap (peers pd) =
      Inr (checks0, fixParts)"
    and ch: "checks rep =
      (if fixParts \<noteq> []
       then attach_to_first_failing (''npm install '' @ join '' '' fixParts) checks0
       else checks0)"
  note P = check_peers_Inr[OF cp]
  from P have fps:
    "fixParts = map (\<lambda>c. fixPart (PeerCheck.name c) (required c)) (filter failing checks0)"
    by blast
  from P have fc: "\<forall>c\<in>set checks0. (failing c \<longrightarrow> fixCommand c = Some (individual_fix c)) \<and>
                      (\<not> failing c \<longrightarrow> fixCommand c = None)" by blast
  show ?thesis
  proof (cases "\<exists>c\<in>set checks0. failing c")
    case False
    then have "fixParts = []" by (simp add: fps filter_empty_conv)
    with ch have "checks rep = checks0" by simp
    with False fc show ?thesis by auto
  next
    case True
    then have ne: "fixParts \<noteq> []" by (simp add: fps filter_empty_conv)
    define x where "x = ''npm install '' @ join '' '' fixParts"
    from ch ne have ch': "checks rep = attach_to_first_failing x checks0"
      unfolding x_def by simp
    from attach_first[OF True, of x] obtain i where
      i: "i < length checks0" "failing (checks0 ! i)" "\<forall>j<i. \<not> failing (checks0 ! j)"
      and upd: "attach_to_first_failing x checks0 =
                  checks0[i := (checks0 ! i)\<lparr>fixCommand := Some x\<rparr>]"
      by blast
    have rep_upd: "checks rep = checks0[i := (checks0 ! i)\<lparr>fixCommand := Some x\<rparr>]"
      using ch' upd by simp
    have comb: "combined_fix (checks rep) = x"
      unfolding combined_fix_def ch' attach_fixParts x_def fps ..
    have len: "length (checks rep) = length checks0" by (simp add: rep_upd)
    have fail_same: "failing (checks rep ! k) = failing (checks0 ! k)"
      if "k < length checks0" for k
      using that by (cases "k = i") (simp_all add: rep_upd failing_def)
    have other: "checks rep ! k = checks0 ! k" if "k < length checks0" "k \<noteq> i" for k
      using that by (simp add: rep_upd)
    have at_i: "fixCommand (checks rep ! i) = Some x" using i(1) by (simp add: rep_upd)
    have part1: "\<forall>c\<in>set (checks rep). fixCommand c \<noteq> None \<longleftrightarrow> failing c"
    proof
      fix c assume "c \<in> set (checks rep)"
      then obtain k where k: "k < length checks0" "c = checks rep ! k"
        by (auto simp: in_set_conv_nth len)
      show "fixCommand c \<noteq> None \<longleftrightarrow> failing c"
      proof (cases "k = i")
        case True
        then show ?thesis using at_i i(2) fail_same[OF k(1)] k by simp
      next
        case False
        then have "c = checks0 ! k" using other k by simp
        moreover have "checks0 ! k \<in> set checks0" using k(1) by simp
        ultimately show ?thesis using fc by auto
      qed
    qed
    have part2: "\<forall>j<length (checks rep). j \<noteq> i \<and> failing (checks rep ! j) \<longrightarrow>
                  fixCommand (checks rep ! j) = Some (individual_fix (checks rep ! j)) \<and>
                  fixCommand (checks rep ! j) \<noteq> Some (combined_fix (checks rep))"
    proof (intro allI impI)
      fix j assume j: "j < length (checks rep)" and "j \<noteq> i \<and> failing (checks rep ! j)"
      then have ji: "j \<noteq> i" and fj: "failing (checks rep ! j)" by simp_all
      have j0: "j < length checks0" using j len by simp
      have eq: "checks rep ! j = checks0 ! j" using other[OF j0 ji] .
      have "checks0 ! j \<in> set checks0" using j0 by simp
      with fc fj eq
      have ind: "fixCommand (checks rep ! j) = Some (individual_fix (checks rep ! j))"
        by auto
      have fi: "failing (checks rep ! i)" using fail_same[OF i(1)] i(2) by simp
      have "individual_fix (checks rep ! j) \<noteq> combined_fix (checks rep)"
        using individual_differs_from_combined[of i "checks rep" j] i(1) j ji fi fj len by auto
      with ind show "fixCommand (checks rep ! j) = Some (individual_fix (checks rep ! j)) \<and>
                  fixCommand (checks rep ! j) \<noteq> Some (combined_fix (checks rep))" by simp
    qed
    have first: "\<forall>j<i. \<not> failing (checks rep ! j)"
      using i(1,3) fail_same by auto
    have fi: "failing (checks rep ! i)" using fail_same[OF i(1)] i(2) by simp
    have ilen: "i < length (checks rep)" using i(1) len by simp
    have at_i': "fixCommand (checks rep ! i) = Some (combined_fix (checks rep))"
      using at_i comb by simp
    have "\<exists>i<length (checks rep).
               failing (checks rep ! i) \<and> (\<forall>j<i. \<not> failing (checks rep ! j)) \<and>
               fixCommand (checks rep ! i) = Some (combined_fix (checks rep)) \<and>
               (\<forall>j<length (checks rep). j \<noteq> i \<and> failing (checks rep ! j) \<longrightarrow>
                  fixCommand (checks rep ! j) = Some (individual_fix (checks rep ! j)) \<and>
                  fixCommand (checks rep ! j) \<noteq> Some (combined_fix (checks rep)))"
      using ilen fi first at_i' part2 by blast
    with part1 show ?thesis by blast
  qed
qed

text \<open>
  Witness for C6: in the scenario report react, the first failing peer, carries the
  combined command for react and react-dom, react-dom keeps its own command, and the two
  passing checks carry none.
\<close>

theorem fixCommand_iff_failing_and_combined_on_first_witness:
  "combined_fix (checks scenario_report) =
     ''npm install react@'' @ dquote @ ''^18.0.0'' @ dquote @
     '' react-dom@'' @ dquote @ ''^18.0.0'' @ dquote \<and>
   fixCommand (checks scenario_report ! 0) = Some (combined_fix (checks scenario_report)) \<and>
   fixCommand (checks scenario_report ! 1) =
     Some (individual_fix (checks scenario_report ! 1)) \<and>
   fixCommand (checks scenario_report ! 1) \<noteq> Some (combined_fix (checks scenario_report)) \<and>
   fixCommand (checks scenario_report ! 2) = None \<and>
   fixCommand (checks scenario_report ! 3) = None"
  using fixCommand_iff_failing_and_combined_on_first[OF scenario_run]
  by (simp add: scenario_report_def sample_check_def combined_fix_def individual_fix_def
        failing_def fixPart_def dquote_def)

subsection \<open>Nothing to check\<close>

lemma fetch_fails_None:
  assumes "cache_get io dir (''peers:'' @ pkgName) = Inr (None, dir1)"
      and "fetch_fails (registry pkgName)"
  shows "fetchPeerDependencies io registry dir pkgName = Inr (None, dir1)"
  using assms
  by (auto simp: fetchPeerDependencies_def fetch_fails_def Let_def
      split: fetch_result.splits option.splits)

lemma fetch_cached:
  assumes "cache_get io dir (''peers:'' @ pkgName) = Inr (Some pd, dir1)"
  shows "fetchPeerDependencies io registry dir pkgName = Inr (Some pd, dir1)"
  using assms by (simp add: fetchPeerDependencies_def)

lemma fetch_fresh:
  assumes "cache_get io dir (''peers:'' @ pkgName) = Inr (None, dir1)"
      and "registry pkgName = Resolved True (Some d)"
      and "peers_of_response d = Some pd"
  shows "fetchPeerDependencies io registry dir pkgName = Inr (None, dir1) \<or>
         (\<exists>dir2. fetchPeerDependencies io registry dir pkgName = Inr (Some pd, dir2))"
  using assms by (simp add: fetchPeerDependencies_def split: sum.splits)

lemma fetch_mkdir_fails:
  "\<not> mkdir_ok io \<Longrightarrow> fetchPeerDependencies io registry dir pkgName = Inl SystemError"
  by (simp add: fetchPeerDependencies_def cache_get_def)

lemma checkCompatibility_empty:
  assumes "findPackageJson (fs_access w) projectPath 3 = Some p"
      and "getInstalledPackages (fs_read_json w) p = Inr installedMap"
      and "fetchPeerDependencies (fs_io w) (npm_registry w) dir pkgName = Inr (peerData, dir1)"
      and "peerData = None \<or> peers (the peerData) = []"
  shows "checkCompatibility w dir pkgName projectPath = Inr (empty_report pkgName, dir1)"
  using assms by (auto simp: checkCompatibility_def empty_report_def)

lemma sample_zero_peers:
  "peers_of_response (sample_response [] Map.empty) = Some (sample_peers [] Map.empty)"
  by (simp add: peers_of_response_def get_property_def sample_response_def sample_peers_def)

lemma corrupt_world_simps:
  "findPackageJson (fs_access corrupt_world) [''project'', ''src''] 3 =
     Some [''project'', ''package.json'']"
  "fs_read_json corrupt_world p = Inl SyntaxError"
  "npm_registry corrupt_world n = Rejected"
  by (simp_all add: corrupt_world_def sample_world_def numeral_3_eq_3)

lemma readonly_world_simps:
  "findPackageJson (fs_access readonly_world) [''project'', ''src''] 3 =
     Some [''project'', ''package.json'']"
  "getInstalledPackages (fs_read_json readonly_world) p = Inr [''react'' \<mapsto> ''^18.0.0'']"
  "npm_registry readonly_world n = Resolved True (Some (sample_response [] Map.empty))"
  "\<not> mkdir_ok (fs_io readonly_world)"
  by (simp_all add: readonly_world_def sample_world_def numeral_3_eq_3
        getInstalledPackages_def Object_assign_def)

text \<open>
  Claim C8, as stated, says that \<open>checkCompatibility\<close> returns the empty report whenever
  the metadata fetch fails and whenever the target declares no peer requirements.
  Counterexample: with a manifest that is not valid JSON and a registry that cannot be
  reached, \<open>getInstalledPackages\<close> throws the SyntaxError of \<open>JSON.parse\<close> before the fetch,
  and the check raises; with a cache directory that cannot be created and a target without
  peer requirements, \<open>cache.get\<close> throws before the fetch, and the check raises.
\<close>

theorem nothing_to_check_can_raise:
  "fetch_fails (npm_registry corrupt_world ''some-pkg'') \<and>
   checkCompatibility corrupt_world Map.empty ''some-pkg'' [''project'', ''src''] =
     Inl SyntaxError \<and>
   npm_registry readonly_world ''some-pkg'' =
     Resolved True (Some (sample_response [] Map.empty)) \<and>
   map_option peers (peers_of_response (sample_response [] Map.empty)) = Some [] \<and>
   checkCompatibility readonly_world Map.empty ''some-pkg'' [''project'', ''src''] =
     Inl SystemError"
proof -
  have "checkCompatibility corrupt_world Map.empty ''some-pkg'' [''project'', ''src''] =
      Inl SyntaxError"
    by (simp add: checkCompatibility_def corrupt_world_simps getInstalledPackages_def)
  moreover have
    "checkCompatibility readonly_world Map.empty ''some-pkg'' [''project'', ''src''] =
      Inl SystemError"
    by (simp add: checkCompatibility_def readonly_world_simps fetch_mkdir_fails)
  ultimately show ?thesis
    by (simp add: corrupt_world_simps readonly_world_simps fetch_fails_def sample_zero_peers
          sample_peers_def)
qed

text \<open>
  Claim C8, amended. \<open>checkCompatibility\<close> returns the report with no checks and
  \<open>compatible = true\<close> when no manifest is found in the project path and its two nearest
  ancestors. When a manifest is found, can be read and parsed, and the cache directory can be
  created, it returns that report, whatever the installed map is,
  \<^item> when no fresh entry is cached and the metadata fetch fails (the request is rejected,
    the response is not ok, its body is not JSON, or it lacks the latest tag or the version
    that the tag names);
  \<^item> when no fresh entry is cached and the version fetched declares no peer requirements;
  \<^item> when the fresh entry cached declares no peer requirements.
  When the manifest that is found cannot be read or parsed, or the cache directory cannot be
  created, \<open>checkCompatibility\<close> raises, whatever the fetch would return.
\<close>

theorem checkCompatibility_nothing_to_check:
  "(findPackageJson (fs_access w) projectPath 3 = None \<longrightarrow>
      checkCompatibility w dir pkgName projectPath = Inr (empty_report pkgName, dir)) \<and>
   (\<forall>p installedMap.
      findPackageJson (fs_access w) projectPath 3 = Some p \<and>
      getInstalledPackages (fs_read_json w) p = Inr installedMap \<and>
      mkdir_ok (fs_io w) \<longrightarrow>
      (\<forall>dir1.
         cache_get (fs_io w) dir (''peers:'' @ pkgName) = Inr (None, dir1) \<and>
         fetch_fails (npm_registry w pkgName) \<longrightarrow>
         checkCompatibility w dir pkgName projectPath = Inr (empty_report pkgName, dir1)) \<and>
      (\<forall>dir1 d pd.
         cache_get (fs_io w) dir (''peers:'' @ pkgName) = Inr (None, dir1) \<and>
         npm_registry w pkgName = Resolved True (Some d) \<and>
         peers_of_response d = Some pd \<and> peers pd = [] \<longrightarrow>
         (\<exists>dir2. checkCompatibility w dir pkgName projectPath =
            Inr (empty_report pkgName, dir2))) \<and>
      (\<forall>dir1 pd.
         cache_get (fs_io w) dir (''peers:'' @ pkgName) = Inr (Some pd, dir1) \<and>
         peers pd = [] \<longrightarrow>
         checkCompatibility w dir pkgName projectPath = Inr (empty_report pkgName, dir1))) \<and>
   (\<forall>p e.
      findPackageJson (fs_access w) projectPath 3 = Some p \<and> fs_read_json w p = Inl e \<longrightarrow>
      checkCompatibility w dir pkgName projectPath = Inl e) \<and>
   (\<forall>p installedMap.
      findPackageJson (fs_access w) projectPath 3 = Some p \<and>
      getInstalledPackages (fs_read_json w) p = Inr installedMap \<and>
      \<not> mkdir_ok (fs_io w) \<longrightarrow>
      checkCompatibility w dir pkgName projectPath = Inl SystemError)"
proof -
  have none: "findPackageJson (fs_access w) projectPath 3 = None \<longrightarrow>
      checkCompatibility w dir pkgName projectPath = Inr (empty_report pkgName, dir)"
    by (simp add: checkCompatibility_def empty_report_def)
  have fails: "checkCompatibility w dir pkgName projectPath = Inr (empty_report pkgName, dir1)"
    if "findPackageJson (fs_access w) projectPath 3 = Some p"
      "getInstalledPackages (fs_read_json w) p = Inr installedMap"
      "cache_get (fs_io w) dir (''peers:'' @ pkgName) = Inr (None, dir1)"
      "fetch_fails (npm_registry w pkgName)"
    for p installedMap dir1
    using that(1,2) fetch_fails_None[of "fs_io w" dir pkgName dir1 "npm_registry w", OF that(3,4)]
    by (rule checkCompatibility_empty) simp
  have zero: "\<exists>dir2. checkCompatibility w dir pkgName projectPath =
      Inr (empty_report pkgName, dir2)"
    if "findPackageJson (fs_access w) projectPath 3 = Some p"
      "getInstalledPackages (fs_read_json w) p = Inr installedMap"
      "cache_get (fs_io w) dir (''peers:'' @ pkgName) = Inr (None, dir1)"
      "npm_registry w pkgName = Resolved True (Some d)"
      "peers_of_response d = Some pd" "peers pd = []"
    for p installedMap dir1 d and pd :: CachedPeers
    using fetch_fresh[of "fs_io w" dir pkgName dir1 "npm_registry w" d pd, OF that(3,4,5)]
  proof (elim disjE exE)
    assume "fetchPeerDependencies (fs_io w) (npm_registry w) dir pkgName = Inr (None, dir1)"
    from checkCompatibility_empty[OF that(1,2) this] show ?thesis by blast
  next
    fix dir2
    assume "fetchPeerDependencies (fs_io w) (npm_registry w) dir pkgName = Inr (Some pd, dir2)"
    from checkCompatibility_empty[OF that(1,2) this] that(6) show ?thesis by simp
  qed
  have cached: "checkCompatibility w dir pkgName projectPath = Inr (empty_report pkgName, dir1)"
    if "findPackageJson (fs_access w) projectPath 3 = Some p"
      "getInstalledPackages (fs_read_json w) p = Inr installedMap"
      "cache_get (fs_io w) dir (''peers:'' @ pkgName) = Inr (Some pd, dir1)"
      "peers pd = []"
    for p installedMap dir1 and pd :: CachedPeers
    using that(1,2) fetch_cached[of "fs_io w" dir pkgName pd dir1 "npm_registry w", OF that(3)]
    by (rule checkCompatibility_empty) (simp add: that(4))
  have corrupt: "checkCompatibility w dir pkgName projectPath = Inl e"
    if "findPackageJson (fs_access w) projectPath 3 = Some p" "fs_read_json w p = Inl e"
    for p e
    using that by (simp add: checkCompatibility_def getInstalledPackages_def)
  have readonly: "checkCompatibility w dir pkgName projectPath = Inl SystemError"
    if "findPackageJson (fs_access w) projectPath 3 = Some p"
      "getInstalledPackages (fs_read_json w) p = Inr installedMap"
      "\<not> mkdir_ok (fs_io w)"
    for p installedMap
    using that by (simp add: checkCompatibility_def fetch_mkdir_fails)
  have found: "(\<forall>dir1.
         cache_get (fs_io w) dir (''peers:'' @ pkgName) = Inr (None, dir1) \<and>
         fetch_fails (npm_registry w pkgName) \<longrightarrow>
         checkCompatibility w dir pkgName projectPath = Inr (empty_report pkgName, dir1)) \<and>
      (\<forall>dir1 d pd.
         cache_get (fs_io w) dir (''peers:'' @ pkgName) = Inr (None, dir1) \<and>
         npm_registry w pkgName = Resolved True (Some d) \<and>
         peers_of_response d = Some pd \<and> peers pd = [] \<longrightarrow>
         (\<exists>dir2. checkCompatibility w dir pkgName projectPath =
            Inr (empty_report pkgName, dir2))) \<and>
      (\<forall>dir1 pd.
         cache_get (fs_io w) dir (''peers:'' @ pkgName) = Inr (Some pd, dir1) \<and>
         peers pd = [] \<longrightarrow>
         checkCompatibility w dir pkgName projectPath = Inr (empty_report pkgName, dir1))"
    if "findPackageJson (fs_access w) projectPath 3 = Some p"
      "getInstalledPackages (fs_read_json w) p = Inr installedMap"
    for p installedMap
    using fails[OF that] zero[OF that] cached[OF that] by blast
  from none found corrupt readonly show ?thesis by blast
qed

text \<open>
  Witness for the amended C8: a path without manifest, a rejected fetch and a target
  without peer requirements, each against a project with installed packages; and the
  project whose cache directory cannot be created.
\<close>

theorem checkCompatibility_nothing_to_check_witness:
  "checkCompatibility both_world Map.empty ''some-pkg'' [''elsewhere''] =
     Inr (empty_report ''some-pkg'', Map.empty) \<and>
   checkCompatibility both_world Map.empty ''some-pkg'' [''project'', ''src''] =
     Inr (empty_report ''some-pkg'', Map.empty) \<and>
   (\<exists>dir2. checkCompatibility
      (sample_world [''react'' \<mapsto> ''^18.0.0''] None
         (Resolved True (Some (sample_response [] Map.empty))))
      Map.empty ''some-pkg'' [''project'', ''src''] = Inr (empty_report ''some-pkg'', dir2)) \<and>
   checkCompatibility readonly_world Map.empty ''some-pkg'' [''project'', ''src''] =
     Inl SystemError"
proof -
  let ?w = "sample_world [''react'' \<mapsto> ''^18.0.0''] None
        (Resolved True (Some (sample_response [] Map.empty)))"
  have a: "findPackageJson (fs_access both_world) [''elsewhere''] 3 = None"
    unfolding both_world_def by (rule sample_find_none)
  have b: "findPackageJson (fs_access both_world) [''project'', ''src''] 3 =
             Some [''project'', ''package.json'']"
          "getInstalledPackages (fs_read_json both_world) [''project'', ''package.json''] =
             Inr ([''react'' \<mapsto> ''^17.0.2'', ''lodash'' \<mapsto> ''^4.17.21''] ++
                  [''react'' \<mapsto> ''^18.0.0''])"
          "mkdir_ok (fs_io both_world)"
          "cache_get (fs_io both_world) Map.empty (''peers:'' @ ''some-pkg'') =
             Inr (None, Map.empty)"
          "fetch_fails (npm_registry both_world ''some-pkg'')"
    unfolding both_world_def sample_find sample_installed
    by (simp_all add: sample_world_def sample_io_def cache_get_def fetch_fails_def)
  have c: "findPackageJson (fs_access ?w) [''project'', ''src''] 3 =
             Some [''project'', ''package.json'']"
          "getInstalledPackages (fs_read_json ?w) [''project'', ''package.json''] =
             Inr [''react'' \<mapsto> ''^18.0.0'']"
          "mkdir_ok (fs_io ?w)"
          "cache_get (fs_io ?w) Map.empty (''peers:'' @ ''some-pkg'') = Inr (None, Map.empty)"
          "npm_registry ?w ''some-pkg'' = Resolved True (Some (sample_response [] Map.empty))"
          "peers (sample_peers [] Map.empty) = []"
    unfolding sample_find sample_installed
    by (simp_all add: sample_world_def sample_io_def cache_get_def sample_peers_def)
  note d = readonly_world_simps
  from checkCompatibility_nothing_to_check[of both_world "[''elsewhere'']" Map.empty "''some-pkg''"]
    a
  have 1: "checkCompatibility both_world Map.empty ''some-pkg'' [''elsewhere''] =
     Inr (empty_report ''some-pkg'', Map.empty)" by blast
  from checkCompatibility_nothing_to_check
         [of both_world "[''project'', ''src'']" Map.empty "''some-pkg''"] b
  have 2: "checkCompatibility both_world Map.empty ''some-pkg'' [''project'', ''src''] =
     Inr (empty_report ''some-pkg'', Map.empty)" by blast
  from checkCompatibility_nothing_to_check[of ?w "[''project'', ''src'']" Map.empty "''some-pkg''"]
    c sample_zero_peers
  have 3: "\<exists>dir2. checkCompatibility ?w Map.empty ''some-pkg'' [''project'', ''src''] =
     Inr (empty_report ''some-pkg'', dir2)" by blast
  from checkCompatibility_nothing_to_check
         [of readonly_world "[''project'', ''src'']" Map.empty "''some-pkg''"] d(1,2,4)
  have 4: "checkCompatibility readonly_world Map.empty ''some-pkg'' [''project'', ''src''] =
     Inl SystemError" by blast
  from 1 2 3 4 show ?thesis by simp
qed


section \<open>Properties of the semver model\<close>

lemma string_lt_asym: "string_lt a b \<Longrightarrow> \<not> string_lt b a"
  by (induction a b rule: string_lt.induct) (auto split: if_splits)

lemma of_char_less_total:
  "x \<noteq> y \<Longrightarrow> \<not> (of_char x :: nat) < of_char y \<Longrightarrow> (of_char y :: nat) < of_char x"
  using of_char_eq_iff[of x y, where 'a = nat] by linarith

lemma string_lt_total: "a \<noteq> b \<Longrightarrow> \<not> string_lt a b \<Longrightarrow> string_lt b a"
  by (induction a b rule: string_lt.induct) (auto split: if_splits intro: of_char_less_total)

lemma compareIdentifiers_flip: "compareIdentifiers b a = - compareIdentifiers a b"
proof (cases a)
  case (Numeric x)
  then show ?thesis by (cases b) auto
next
  case (Alphanumeric x)
  note a = this
  show ?thesis
  proof (cases b)
    case (Numeric y)
    with a show ?thesis by simp
  next
    case (Alphanumeric y)
    with a show ?thesis
      using string_lt_asym[of x y] string_lt_total[of x y] by auto
  qed
qed

lemma compareIdentifiers_zero: "compareIdentifiers a b = 0 \<longleftrightarrow> a = b"
  by (cases a; cases b) auto

lemma comparePre_loop_flip: "comparePre_loop bs as = - comparePre_loop as bs"
proof (induction as bs rule: comparePre_loop.induct)
  case (4 a as b bs)
  then show ?case using compareIdentifiers_flip[of b a] by auto
qed simp_all

lemma comparePre_loop_zero: "comparePre_loop as bs = 0 \<longleftrightarrow> as = bs"
  by (induction as bs rule: comparePre_loop.induct) (auto simp: compareIdentifiers_zero)

lemma compareMain_flip: "compareMain w v = - compareMain v w"
  by (simp add: compareMain_def)

lemma compareMain_zero:
  "compareMain v w = 0 \<longleftrightarrow> major v = major w \<and> minor v = minor w \<and> patch v = patch w"
  by (simp add: compareMain_def)

lemma comparePre_flip: "comparePre w v = - comparePre v w"
  using comparePre_loop_flip[of "prerelease w" "prerelease v"] by (simp add: comparePre_def)

lemma comparePre_zero: "comparePre v w = 0 \<longleftrightarrow> prerelease v = prerelease w"
  by (auto simp: comparePre_def comparePre_loop_zero)

lemma SemVer_compare_flip: "SemVer_compare w v = - SemVer_compare v w"
  using compareMain_flip[of w v] comparePre_flip[of w v]
  by (auto simp: SemVer_compare_def)

lemma SemVer_compare_zero: "SemVer_compare v w = 0 \<longleftrightarrow> v = w"
  by (auto simp: SemVer_compare_def compareMain_zero comparePre_zero SemVer.expand)

lemma Comparator_intersects_symmetric:
  assumes "\<not> (pins_prerelease a \<and> b = ANY)" "\<not> (pins_prerelease b \<and> a = ANY)"
  shows "Comparator_intersects a b = Comparator_intersects b a"
proof (cases a)
  case ANY
  note a = this
  show ?thesis
  proof (cases b)
    case ANY
    with a show ?thesis by simp
  next
    case (Comparator op' w)
    with a assms show ?thesis by (cases op') (auto simp: pins_prerelease_def)
  qed
next
  case (Comparator op v)
  note a = this
  show ?thesis
  proof (cases b)
    case ANY
    with assms a show ?thesis by (cases op) (auto simp: pins_prerelease_def)
  next
    case (Comparator op' w)
    have flip: "SemVer_compare w v = - SemVer_compare v w" by (rule SemVer_compare_flip)
    have zero: "SemVer_compare v w = 0 \<longleftrightarrow> v = w" by (rule SemVer_compare_zero)
    show ?thesis
      unfolding a Comparator
      by (cases op; cases op') (auto simp: flip zero)
  qed
qed


lemma Range_intersects_symmetric:
  assumes "\<not> (pins_prerelease_range a \<and> has_any b)" "\<not> (pins_prerelease_range b \<and> has_any a)"
  shows "Range_intersects a b = Range_intersects b a"
proof -
  have sym: "Comparator_intersects x y = Comparator_intersects y x"
    if "tc \<in> set a" "x \<in> set tc" "rc \<in> set b" "y \<in> set rc" for tc rc x y
  proof (rule Comparator_intersects_symmetric)
    show "\<not> (pins_prerelease x \<and> y = ANY)"
      using assms(1) that by (auto simp: pins_prerelease_range_def has_any_def list_ex_iff isAny_def)
    show "\<not> (pins_prerelease y \<and> x = ANY)"
      using assms(2) that by (auto simp: pins_prerelease_range_def has_any_def list_ex_iff isAny_def)
  qed
  have inner: "(\<forall>x\<in>set tc. \<forall>y\<in>set rc. Comparator_intersects x y) =
               (\<forall>y\<in>set rc. \<forall>x\<in>set tc. Comparator_intersects y x)"
    if "tc \<in> set a" "rc \<in> set b" for tc rc
    using sym[OF that(1) _ that(2)] by blast
  have "Range_intersects a b \<longleftrightarrow>
      (\<exists>tc\<in>set a. \<exists>rc\<in>set b. isSatisfiable tc \<and> isSatisfiable rc \<and>
         (\<forall>x\<in>set tc. \<forall>y\<in>set rc. Comparator_intersects x y))"
    by (auto simp: Range_intersects_def list_ex_iff list_all_iff)
  also have "\<dots> \<longleftrightarrow>
      (\<exists>tc\<in>set a. \<exists>rc\<in>set b. isSatisfiable tc \<and> isSatisfiable rc \<and>
         (\<forall>y\<in>set rc. \<forall>x\<in>set tc. Comparator_intersects y x))"
    using inner by blast
  also have "\<dots> \<longleftrightarrow> Range_intersects b a"
    by (auto simp: Range_intersects_def list_ex_iff list_all_iff)
  finally show ?thesis .
qed

lemma intersects_symmetric:
  assumes "\<not> (pins_prerelease_version ext a \<and> allows_any_version ext b)"
      and "\<not> (pins_prerelease_version ext b \<and> allows_any_version ext a)"
  shows "semver_package_intersects ext a b = semver_package_intersects ext b a"
proof (cases "new_Range ext a")
  case (Inl e)
  note a = this
  show ?thesis
  proof (cases "new_Range ext b")
    case (Inl e')
    with a new_Range_error[OF a] new_Range_error[OF Inl] show ?thesis
      by (simp add: semver_package_intersects_def)
  next
    case (Inr rb)
    with a show ?thesis by (simp add: semver_package_intersects_def)
  qed
next
  case (Inr ra)
  note a = this
  show ?thesis
  proof (cases "new_Range ext b")
    case (Inl e')
    with a show ?thesis by (simp add: semver_package_intersects_def)
  next
    case (Inr rb)
    have "Range_intersects ra rb = Range_intersects rb ra"
      using assms a Inr
      by (intro Range_intersects_symmetric) (simp_all add: pins_prerelease_version_def allows_any_version_def)
    with a Inr show ?thesis by (simp add: semver_package_intersects_def)
  qed
qed


text \<open>
  Claim C9, as stated, says that the overlap decision is symmetric for all pairs of range
  strings. Counterexample: the exact prerelease version \<open>1.0.0-alpha\<close> against \<open>*\<close>. With
  the pinned version first, \<open>Comparator.intersects\<close> tests the version against the range
  \<open>*\<close>, which excludes prereleases, and the answer is false; with \<open>*\<close> first the answer is
  true.
\<close>

theorem intersects_not_symmetric:
  "semver_package_intersects no_other_syntax ''1.0.0-alpha'' ''*'' = Inr False \<and>
   semver_package_intersects no_other_syntax ''*'' ''1.0.0-alpha'' = Inr True"
  by code_simp

text \<open>
  Claim C9, amended. The overlap decision is \<open>semver.intersects(installed, required)\<close> and
  follows range intersection, not containment of a single version: \<open>^17.0.0\<close> and \<open>^18.0.0\<close>
  do not overlap, \<open>>=17.0.0 <19.0.0\<close> and \<open>^18.0.0\<close> do. It is not symmetric for all pairs:
  for \<open>1.0.0-alpha\<close> and \<open>*\<close> it is false with the pinned version first and true with \<open>*\<close>
  first. It is symmetric (the same answer, or an exception in both orders) for every pair of
  range strings other than those in which one string parses to a range that contains an
  exact prerelease version and the other to a range that contains the any-version
  comparator.
\<close>

theorem intersects_symmetric_unless_pinned_prerelease:
  "(\<not> (pins_prerelease_version ext a \<and> allows_any_version ext b) \<and>
    \<not> (pins_prerelease_version ext b \<and> allows_any_version ext a) \<longrightarrow>
      semver_package_intersects ext a b = semver_package_intersects ext b a) \<and>
   semver_package_intersects ext ''^17.0.0'' ''^18.0.0'' = Inr False \<and>
   semver_package_intersects ext ''>=17.0.0 <19.0.0'' ''^18.0.0'' = Inr True \<and>
   semver_package_intersects ext ''1.0.0-alpha'' ''*'' = Inr False \<and>
   semver_package_intersects ext ''*'' ''1.0.0-alpha'' = Inr True \<and>
   pins_prerelease_version ext ''1.0.0-alpha'' \<and> allows_any_version ext ''*''"
proof -
  have "semver_package_intersects ext a b = semver_package_intersects ext b a"
    if "\<not> (pins_prerelease_version ext a \<and> allows_any_version ext b) \<and>
        \<not> (pins_prerelease_version ext b \<and> allows_any_version ext a)"
    using that by (intro intersects_symmetric) simp_all
  moreover have "semver_package_intersects ext ''^17.0.0'' ''^18.0.0'' = Inr False"
    by code_simp
  moreover have "semver_package_intersects ext ''>=17.0.0 <19.0.0'' ''^18.0.0'' = Inr True"
    by code_simp
  moreover have "semver_package_intersects ext ''1.0.0-alpha'' ''*'' = Inr False"
    by code_simp
  moreover have "semver_package_intersects ext ''*'' ''1.0.0-alpha'' = Inr True"
    by code_simp
  moreover have "pins_prerelease_version ext ''1.0.0-alpha''" by code_simp
  moreover have "allows_any_version ext ''*''" by code_simp
  ultimately show ?thesis by blast
qed

text \<open>
  Witness for the amended C9: neither \<open>>=17.0.0 <19.0.0\<close> nor \<open>^18.0.0\<close> pins a prerelease
  version, and they overlap in both orders.
\<close>

theorem intersects_symmetric_unless_pinned_prerelease_witness:
  "\<not> pins_prerelease_version no_other_syntax ''>=17.0.0 <19.0.0'' \<and>
   \<not> pins_prerelease_version no_other_syntax ''^18.0.0'' \<and>
   semver_package_intersects no_other_syntax ''^18.0.0'' ''>=17.0.0 <19.0.0'' = Inr True \<and>
   semver_package_intersects no_other_syntax ''>=17.0.0 <19.0.0'' ''^18.0.0'' = Inr True"
proof -
  have a: "\<not> pins_prerelease_version no_other_syntax ''>=17.0.0 <19.0.0''" by code_simp
  have b: "\<not> pins_prerelease_version no_other_syntax ''^18.0.0''" by code_simp
  from intersects_symmetric_unless_pinned_prerelease
         [of no_other_syntax "''>=17.0.0 <19.0.0''" "''^18.0.0''"] a b
  show ?thesis by metis
qed

section \<open>Properties of the security checker\<close>

lemma consistent_empty: "consistent (empty_security_report pkgName)"
  by (simp add: consistent_def empty_security_report_def)

lemma cache_get_consistent:
  assumes "cache_consistent dir" "cache_get io dir key = Inr (res, dir1)"
  shows "cache_consistent dir1 \<and> (\<forall>cached. res = Some cached \<longrightarrow> consistent cached)"
  using assms
  by (auto simp: cache_get_def cache_consistent_def Let_def split: if_splits option.splits)

lemma cache_set_consistent:
  assumes "cache_consistent dir" "consistent r" "cache_set io dir key r t = Inr dir1"
  shows "cache_consistent dir1"
  using assms
  by (auto simp: cache_set_def cache_consistent_def split: if_splits)

lemma checkSecurity_cases:
  assumes "checkSecurity io osv parseFloat dir pkgName ver = Inr (r, dir')"
  shows "(\<exists>cached. cache_get io dir (''security:'' @ pkgName @ ''@'' @ ver) =
             Inr (Some cached, dir') \<and> r = cached) \<or>
         (\<exists>dir1. cache_get io dir (''security:'' @ pkgName @ ''@'' @ ver) = Inr (None, dir1) \<and>
            consistent r \<and>
            (dir' = dir1 \<or>
             cache_set io dir1 (''security:'' @ pkgName @ ''@'' @ ver) r SECURITY_CACHE_TTL_MS =
               Inr dir'))"
proof (cases "cache_get io dir (''security:'' @ pkgName @ ''@'' @ ver)")
  case (Inl e)
  with assms show ?thesis by (simp add: checkSecurity_def)
next
  case (Inr res)
  obtain hit dir1 where res: "res = (hit, dir1)" by (cases res)
  note cg = Inr[unfolded res]
  show ?thesis
  proof (cases hit)
    case (Some cached)
    with assms cg show ?thesis by (simp add: checkSecurity_def)
  next
    case None
    note miss = cg[unfolded None]
    let ?empty = "\<lparr>SecurityReport.packageName = pkgName, vulnerabilities = [],
                    hasCritical = False\<rparr>"
    have ce: "consistent ?empty" by (simp add: consistent_def)
    have "consistent r \<and>
            (dir' = dir1 \<or>
             cache_set io dir1 (''security:'' @ pkgName @ ''@'' @ ver) r SECURITY_CACHE_TTL_MS =
               Inr dir')"
      using assms miss ce
      by (auto simp: checkSecurity_def Let_def consistent_def list_ex_iff
          split: fetch_result.splits option.splits if_splits sum.splits
          simp del: append.simps)
    with miss show ?thesis by blast
  qed
qed

lemma checkSecurity_consistent:
  assumes "cache_consistent dir"
      and "checkSecurity io osv parseFloat dir pkgName ver = Inr (r, dir')"
  shows "consistent r \<and> cache_consistent dir'"
proof -
  from checkSecurity_cases[OF assms(2)] consider
    (hit) cached where
      "cache_get io dir (''security:'' @ pkgName @ ''@'' @ ver) = Inr (Some cached, dir')"
      "r = cached"
  | (miss) dir1 where
      "cache_get io dir (''security:'' @ pkgName @ ''@'' @ ver) = Inr (None, dir1)"
      "consistent r"
      "dir' = dir1 \<or>
       cache_set io dir1 (''security:'' @ pkgName @ ''@'' @ ver) r SECURITY_CACHE_TTL_MS =
         Inr dir'"
    by blast
  then show ?thesis
  proof cases
    case hit
    with cache_get_consistent[OF assms(1)] show ?thesis by blast
  next
    case miss
    from cache_get_consistent[OF assms(1) miss(1)] have c1: "cache_consistent dir1" by blast
    from miss(3) have "cache_consistent dir'"
    proof
      assume "dir' = dir1"
      with c1 show ?thesis by simp
    next
      assume "cache_set io dir1 (''security:'' @ pkgName @ ''@'' @ ver) r
        SECURITY_CACHE_TTL_MS = Inr dir'"
      from cache_set_consistent[OF c1 miss(2) this] show ?thesis .
    qed
    with miss(2) show ?thesis by simp
  qed
qed

lemma reachable_consistent: "security_cache_reachable dir \<Longrightarrow> cache_consistent dir"
proof (induction rule: security_cache_reachable.induct)
  case fresh
  then show ?case by (simp add: cache_consistent_def)
next
  case (after_check dir io osv parseFloat pkgName ver r dir')
  from checkSecurity_consistent[OF after_check.IH after_check.hyps(2)] show ?case by simp
qed

lemma checkSecurity_error_path:
  assumes "cache_get io dir (''security:'' @ pkgName @ ''@'' @ ver) = Inr (None, dir1)"
      and "osv pkgName ver = Rejected \<or> (\<exists>body. osv pkgName ver = Resolved False body)"
  shows "checkSecurity io osv parseFloat dir pkgName ver =
           Inr (empty_security_report pkgName, dir1)"
  using assms by (auto simp: checkSecurity_def empty_security_report_def)

text \<open>
  Claim C10. In every report that \<open>checkSecurity\<close> returns, in any run that starts from an
  empty cache directory, \<open>hasCritical\<close> is true if and only if some vulnerability of the
  report is CRITICAL. On the error paths (the request is rejected or the response is not
  ok) the report has no vulnerabilities and \<open>hasCritical\<close> is false.
\<close>

theorem checkSecurity_hasCritical_iff:
  assumes "security_cache_reachable dir"
      and "checkSecurity io osv parseFloat dir pkgName ver = Inr (r, dir')"
  shows "(hasCritical r \<longleftrightarrow> (\<exists>v\<in>set (vulnerabilities r). severity v = CRITICAL)) \<and>
         security_cache_reachable dir' \<and>
         (\<forall>dir1. cache_get io dir (''security:'' @ pkgName @ ''@'' @ ver) = Inr (None, dir1) \<and>
            (osv pkgName ver = Rejected \<or> (\<exists>body. osv pkgName ver = Resolved False body)) \<longrightarrow>
            r = empty_security_report pkgName \<and> vulnerabilities r = [] \<and> \<not> hasCritical r)"
proof -
  from checkSecurity_consistent[OF reachable_consistent[OF assms(1)] assms(2)]
  have "hasCritical r \<longleftrightarrow> (\<exists>v\<in>set (vulnerabilities r). severity v = CRITICAL)"
    by (simp add: consistent_def)
  moreover have "security_cache_reachable dir'"
    using assms by (rule security_cache_reachable.after_check)
  moreover have "r = empty_security_report pkgName \<and> vulnerabilities r = [] \<and> \<not> hasCritical r"
    if "cache_get io dir (''security:'' @ pkgName @ ''@'' @ ver) = Inr (None, dir1)"
      and "osv pkgName ver = Rejected \<or> (\<exists>body. osv pkgName ver = Resolved False body)"
    for dir1
    using checkSecurity_error_path[of io dir pkgName ver dir1 osv parseFloat, OF that] assms(2)
    by (simp add: empty_security_report_def)
  ultimately show ?thesis by blast
qed


text \<open>
  Witness for C10: the first check of a package with a CRITICAL advisory, on an empty
  cache, returns the report with the flag set; the second check returns the same report from
  the cache; a rejected request gives the empty report.
\<close>

lemma sample_checkSecurity:
  "checkSecurity sample_io sample_osv sample_parseFloat Map.empty ''some-pkg'' ''1.0.0'' =
     Inr (sample_critical_report, sample_security_cache)"
  by (simp add: checkSecurity_def cache_get_def cache_set_def sample_io_def sample_osv_def
        sample_osv_vuln_def normalizeVuln_def normalizeSeverity_def truthy_def
        sample_parseFloat_def extractAffectedVersions_def pickUrl_def
        sample_critical_report_def sample_security_cache_def Let_def)

lemma sample_checkSecurity_cached:
  "checkSecurity sample_io (\<lambda>p v. Rejected) sample_parseFloat sample_security_cache
     ''some-pkg'' ''1.0.0'' =
     Inr (sample_critical_report, sample_security_cache)"
  by (simp add: checkSecurity_def cache_get_def sample_io_def sample_security_cache_def
        SECURITY_CACHE_TTL_MS_def)

theorem checkSecurity_hasCritical_iff_witness:
  "hasCritical sample_critical_report = True \<and>
   severity (vulnerabilities sample_critical_report ! 0) = CRITICAL \<and>
   security_cache_reachable sample_security_cache \<and>
   checkSecurity sample_io (\<lambda>p v. Rejected) sample_parseFloat sample_security_cache
     ''some-pkg'' ''1.0.0'' = Inr (sample_critical_report, sample_security_cache)"
  using checkSecurity_hasCritical_iff[OF security_cache_reachable.fresh sample_checkSecurity]
    sample_checkSecurity_cached
  by (simp add: sample_critical_report_def)



end
